theory Spec2Isabelle
  imports Main
begin

section \<open>JavaScript values\<close>

text \<open>
  The values a parsed JSON body and a JSON response are made of, with \<open>undefined\<close>.
  Numbers are the integers; the keys of an object are distinct, as \<open>JSON.parse\<close>
  leaves them. A text is its sequence of UTF-8 bytes, so that \<open>Buffer.from(text)\<close>
  is the text itself.
\<close>

datatype jsvalue =
  JUndefined
  | JNull
  | JBool bool
  | JNum int
  | JStr string
  | JArr "jsvalue list"
  | JObj "(string \<times> jsvalue) list"

text \<open>What \<open>if (v)\<close>, \<open>!v\<close>, \<open>v || d\<close> and \<open>v && w\<close> test.\<close>

fun truthy :: "jsvalue \<Rightarrow> bool" where
  "truthy JUndefined = False"
| "truthy JNull = False"
| "truthy (JBool b) = b"
| "truthy (JNum n) = (n \<noteq> 0)"
| "truthy (JStr s) = (s \<noteq> [])"
| "truthy (JArr xs) = True"
| "truthy (JObj kvs) = True"

text \<open>An optional text field: absent is \<open>undefined\<close>.\<close>

definition truthy_text :: "string option \<Rightarrow> bool" where
  "truthy_text v = (case v of None \<Rightarrow> False | Some s \<Rightarrow> s \<noteq> [])"

text \<open>
  \<open>v[key]\<close> for a value that is not null or undefined, and a key that no object
  inherits (the code reads fixed keys, none of them a member of \<open>Object.prototype\<close>).
\<close>

definition get_field :: "jsvalue \<Rightarrow> string \<Rightarrow> jsvalue" where
  "get_field v key =
     (case v of
        JObj kvs \<Rightarrow> (case map_of kvs key of None \<Rightarrow> JUndefined | Some x \<Rightarrow> x)
      | _ \<Rightarrow> JUndefined)"

section \<open>Token service (services/authService.ts, utils/token.ts, utils/hash.ts)\<close>

subsection \<open>Time, tokens and rows\<close>

text \<open>
  An instant is the time value of a valid date: the number of milliseconds since the
  epoch, as \<open>Date.now()\<close> and \<open>Date.getTime()\<close> give it. The sessions table
  stores an instant as the text of \<open>toISOString()\<close>. The service reads the text back
  with \<open>new Date(text)\<close>, which gives the instant again, and compares dates; the sweep
  hands the texts to SQLite, which compares them as texts. A row of the model keeps
  the instant, and the sweep compares the texts of the instants.
\<close>

type_synonym instant = int

text \<open>
  \<open>Date.prototype.toISOString\<close> of the JavaScript runtime, written with the abstract
  operations of the ECMAScript specification for time values. \<open>DayFromYear\<close> is the day
  number of the first day of a year, and \<open>YearFromTime\<close> the largest year whose first
  day is not after the day of the instant: the search goes down from a year that is
  late enough.
\<close>

definition Day :: "instant \<Rightarrow> int" where
  "Day t = t div 86400000"

definition DayFromYear :: "int \<Rightarrow> int" where
  "DayFromYear y =
     365 * (y - 1970) + (y - 1969) div 4 - (y - 1901) div 100 + (y - 1601) div 400"

function year_down :: "int \<Rightarrow> int \<Rightarrow> int" where
  "year_down day y = (if DayFromYear y \<le> day then y else year_down day (y - 1))"
  by pat_completeness auto
termination
proof (relation "measure (\<lambda>(day, y). nat (y - min 1970 (1969 + day div 365)))")
  show "wf (measure (\<lambda>(day, y). nat (y - min 1970 (1969 + day div 365))))" by simp
next
  fix day y :: int
  assume a: "\<not> DayFromYear y \<le> day"
  have "min 1970 (1969 + day div 365) < y"
  proof (rule ccontr)
    assume "\<not> min 1970 (1969 + day div 365) < y"
    then have y: "y \<le> 1970" "y - 1969 \<le> day div 365" by auto
    define leaps where "leaps = (y - 1969) div 4 - (y - 1901) div 100 + (y - 1601) div 400"
    have "leaps \<le> 1"
      unfolding leaps_def using y(1) by arith
    moreover have "DayFromYear y = 365 * (y - 1970) + leaps"
      unfolding leaps_def DayFromYear_def by (simp only: diff_conv_add_uminus add.assoc)
    ultimately have "DayFromYear y \<le> 365 * (y - 1969) - 364" by simp
    also have "\<dots> \<le> 365 * (day div 365) - 364" using y(2) by simp
    also have "\<dots> \<le> day" by arith
    finally show False using a by simp
  qed
  then show "((day, y - 1), (day, y)) \<in> measure (\<lambda>(day, y). nat (y - min 1970 (1969 + day div 365)))"
    by simp
qed

definition YearFromTime :: "instant \<Rightarrow> int" where
  "YearFromTime t =
     year_down (Day t) (if Day t < 0 then 1970 else 1971 + Day t div 365)"

definition DaysInYear :: "int \<Rightarrow> int" where
  "DaysInYear y =
     (if y mod 4 \<noteq> 0 then 365 else if y mod 100 \<noteq> 0 then 366
      else if y mod 400 \<noteq> 0 then 365 else 366)"

definition InLeapYear :: "instant \<Rightarrow> int" where
  "InLeapYear t = (if DaysInYear (YearFromTime t) = 366 then 1 else 0)"

definition DayWithinYear :: "instant \<Rightarrow> int" where
  "DayWithinYear t = Day t - DayFromYear (YearFromTime t)"

text \<open>
  The tables of \<open>MonthFromTime\<close> (January is 0) and \<open>DateFromTime\<close>, from the day within
  the year and the leap-year flag.
\<close>

definition month_of :: "int \<Rightarrow> int \<Rightarrow> int" where
  "month_of leap d =
     (if d < 31 then 0 else if d < 59 + leap then 1 else if d < 90 + leap then 2
      else if d < 120 + leap then 3 else if d < 151 + leap then 4
      else if d < 181 + leap then 5 else if d < 212 + leap then 6
      else if d < 243 + leap then 7 else if d < 273 + leap then 8
      else if d < 304 + leap then 9 else if d < 334 + leap then 10 else 11)"

definition date_of :: "int \<Rightarrow> int \<Rightarrow> int" where
  "date_of leap d =
     (let m = month_of leap d in
      if m = 0 then d + 1 else if m = 1 then d - 30 else if m = 2 then d - 58 - leap
      else if m = 3 then d - 89 - leap else if m = 4 then d - 119 - leap
      else if m = 5 then d - 150 - leap else if m = 6 then d - 180 - leap
      else if m = 7 then d - 211 - leap else if m = 8 then d - 242 - leap
      else if m = 9 then d - 272 - leap else if m = 10 then d - 303 - leap
      else d - 333 - leap)"

definition MonthFromTime :: "instant \<Rightarrow> int" where
  "MonthFromTime t = month_of (InLeapYear t) (DayWithinYear t)"

definition DateFromTime :: "instant \<Rightarrow> int" where
  "DateFromTime t = date_of (InLeapYear t) (DayWithinYear t)"

definition HourFromTime :: "instant \<Rightarrow> int" where
  "HourFromTime t = t div 3600000 mod 24"

definition MinFromTime :: "instant \<Rightarrow> int" where
  "MinFromTime t = t div 60000 mod 60"

definition SecFromTime :: "instant \<Rightarrow> int" where
  "SecFromTime t = t div 1000 mod 60"

definition msFromTime :: "instant \<Rightarrow> int" where
  "msFromTime t = t mod 1000"

definition digit_char :: "int \<Rightarrow> char" where
  "digit_char d = ''0123456789'' ! nat d"

text \<open>The last \<open>w\<close> decimal digits of a number that is not negative.\<close>

fun decimal :: "nat \<Rightarrow> int \<Rightarrow> string" where
  "decimal 0 n = []"
| "decimal (Suc w) n = decimal w (n div 10) @ [digit_char (n mod 10)]"

text \<open>
  The text: a year from 0 to 9999 is written with four digits, any other year with a
  sign and six digits.
\<close>

definition toISOString :: "instant \<Rightarrow> string" where
  "toISOString t =
     (let y = YearFromTime t in
      if 0 \<le> y \<and> y \<le> 9999 then decimal 4 y
      else (if y < 0 then ''-'' else ''+'') @ decimal 6 \<bar>y\<bar>)
     @ ''-'' @ decimal 2 (MonthFromTime t + 1) @ ''-'' @ decimal 2 (DateFromTime t)
     @ ''T'' @ decimal 2 (HourFromTime t) @ '':'' @ decimal 2 (MinFromTime t)
     @ '':'' @ decimal 2 (SecFromTime t) @ ''.'' @ decimal 3 (msFromTime t) @ ''Z''"

text \<open>
  SQLite's \<open><\<close> on two texts (the BINARY collation): the bytes are compared from the
  left, and a text that is a proper prefix of the other comes first.
\<close>

fun text_less :: "string \<Rightarrow> string \<Rightarrow> bool" where
  "text_less [] [] = False"
| "text_less [] (y # ys) = True"
| "text_less (x # xs) [] = False"
| "text_less (x # xs) (y # ys) =
     (if x = y then text_less xs ys else (of_char x :: nat) < of_char y)"

text \<open>
  The numbers that \<open>toISOString\<close> writes, from the year to the millisecond, the order
  of two such lists from the left, and the instants of the years 0000 to 9999.
\<close>

definition iso_fields :: "instant \<Rightarrow> int list" where
  "iso_fields t = [YearFromTime t, MonthFromTime t + 1, DateFromTime t, HourFromTime t,
               MinFromTime t, SecFromTime t, msFromTime t]"

fun lex_less :: "int list \<Rightarrow> int list \<Rightarrow> bool" where
  "lex_less (x # xs) (y # ys) = (x < y \<or> x = y \<and> lex_less xs ys)"
| "lex_less _ _ = False"

definition four_digit_year :: "instant \<Rightarrow> bool" where
  "four_digit_year t = (- 62167219200000 \<le> t \<and> t < 253402300800000)"

datatype token_type = access | refresh

record TokenPayload =
  clientId :: string
  type :: token_type
  jti :: string
  iat :: int
  exp :: int

text \<open>
  A token string is either a JSON Web Token, made by \<open>jwt.sign\<close> from a payload and a
  signing key, or any other text (a refresh token is 32 random bytes in hex). The
  jsonwebtoken library is outside the repository; its tokens are modelled symbolically:
  two signed tokens are the same string exactly when payload and key are the same.
\<close>

datatype token = Jwt TokenPayload string | Opaque string

record OAuthClient =
  cl_id :: nat
  cl_client_id :: string
  cl_client_secret_hash :: string
  cl_name :: string
  cl_is_active :: int

record OAuthSession =
  s_id :: nat
  s_client_id :: nat
  s_access_token :: token
  s_refresh_token :: token
  s_token_type :: string
  s_expires_at :: instant
  s_refresh_expires_at :: instant
  s_is_revoked :: int

text \<open>
  The database: the rows of the two tables in rowid order, and the AUTOINCREMENT
  high-water mark of the sessions table.
\<close>

record database =
  clients :: "OAuthClient list"
  sessions :: "OAuthSession list"
  sessions_seq :: nat

subsection \<open>Library functions the service calls\<close>

text \<open>
  Every exception the modelled code can raise is a value of this type: the error
  \<open>verifyToken\<close> throws, the constraint failure of an INSERT, the range error of
  \<open>crypto.timingSafeEqual\<close>, and the errors thrown with a message.
\<close>

datatype error =
  InvalidOrExpiredToken
  | SqliteConstraintUnique
  | RangeError
  | Error string

text \<open>
  The environment of the service. \<open>bcrypt.compare\<close> on two texts is a library function
  and stays a parameter, and so does what better-sqlite3 makes of a bound value that is
  not a text when the statement compares it with a TEXT column: the text SQLite
  compares (for a number, its rendering), or the error the binding throws. The third
  component is \<open>config.jwtSecret\<close>.
\<close>

record environment =
  bcrypt_compare :: "string \<Rightarrow> string \<Rightarrow> bool"
  bind_parameter :: "jsvalue \<Rightarrow> error + string"
  jwtSecret :: string

text \<open>
  The value bound to the \<open>?\<close> of a statement that compares it with a TEXT column. The
  declared type of the argument is a text; the controller passes whatever the request
  body holds.
\<close>

definition bound_text :: "environment \<Rightarrow> jsvalue \<Rightarrow> error + string" where
  "bound_text env v = (case v of JStr s \<Rightarrow> Inr s | _ \<Rightarrow> bind_parameter env v)"

text \<open>
  \<open>verifySecret\<close> of utils/hash.ts is \<open>bcrypt.compare(plainText, hash)\<close>. The promise
  rejects when the first argument is neither a text nor a buffer; the hash is a text
  of the clients table.
\<close>

definition verifySecret :: "environment \<Rightarrow> jsvalue \<Rightarrow> string \<Rightarrow> error + bool" where
  "verifySecret env plainText hash =
     (case plainText of
        JStr s \<Rightarrow> Inr (bcrypt_compare env s hash)
      | _ \<Rightarrow> Inl (Error ''data and hash must be strings''))"

text \<open>
  Modelled from the spec: \<open>jwt.sign\<close> of the jsonwebtoken library, which is not part of
  the repository. The spec has the access token "a signed, tamper-evident token encoding
  the client identifier, a token-kind marker, and a random uniquifier, with an embedded
  expiry". Signing stamps the payload with the second of issue and the expiry second.
\<close>

definition jwt_sign :: "string \<Rightarrow> token_type \<Rightarrow> string \<Rightarrow> string \<Rightarrow> int \<Rightarrow> instant \<Rightarrow> token" where
  "jwt_sign cid ty uniq key expiresIn now =
     Jwt \<lparr>clientId = cid, type = ty, jti = uniq,
          iat = now div 1000, exp = now div 1000 + expiresIn\<rparr> key"

text \<open>
  Modelled from the spec: \<open>jwt.verify\<close> of the jsonwebtoken library. The spec has
  validation verify "the token's embedded signature and expiry": a token is accepted
  when it was signed with the same key and its expiry second has not been reached.
\<close>

definition jwt_verify :: "token \<Rightarrow> string \<Rightarrow> instant \<Rightarrow> TokenPayload option" where
  "jwt_verify t key now =
     (case t of
        Jwt p k \<Rightarrow> if k = key \<and> now div 1000 < exp p then Some p else None
      | Opaque _ \<Rightarrow> None)"

subsection \<open>utils/token.ts\<close>

text \<open>
  The random bytes of \<open>crypto.randomBytes\<close> are inputs of the model: \<open>uniq\<close> is the hex
  text of the 16 bytes of the token identifier, \<open>rnd\<close> that of the 32 bytes of the
  refresh token.
\<close>

definition generateAccessToken :: "environment \<Rightarrow> instant \<Rightarrow> string \<Rightarrow> string \<Rightarrow> int \<Rightarrow> token" where
  "generateAccessToken env now uniq cid expiresIn =
     jwt_sign cid access uniq (jwtSecret env) expiresIn now"

definition generateRefreshToken :: "string \<Rightarrow> token" where
  "generateRefreshToken rnd = Opaque rnd"

definition verifyToken :: "environment \<Rightarrow> instant \<Rightarrow> token \<Rightarrow> error + TokenPayload" where
  "verifyToken env now t =
     (case jwt_verify t (jwtSecret env) now of
        None \<Rightarrow> Inl InvalidOrExpiredToken
      | Some p \<Rightarrow> Inr p)"

definition getExpirationDate :: "instant \<Rightarrow> int \<Rightarrow> instant" where
  "getExpirationDate now expiresInSeconds = now + expiresInSeconds * 1000"

subsection \<open>AuthService\<close>

record GeneratedTokens =
  accessToken :: token
  refreshToken :: token
  expiresAt :: instant
  refreshExpiresAt :: instant

record TokenResponse =
  access_token :: token
  refresh_token :: token
  token_type :: string
  expires_in :: int

text \<open>
  \<open>.get()\<close> of a prepared SELECT gives the first matching row, or undefined. What
  \<open>authenticateClient\<close> throws is the error of the binding or of \<open>verifySecret\<close>; the
  secret is looked at only when an active client has the identifier.
\<close>

definition authenticateClient ::
    "environment \<Rightarrow> database \<Rightarrow> jsvalue \<Rightarrow> jsvalue \<Rightarrow> error + OAuthClient option" where
  "authenticateClient env db client_id clientSecret =
     (case bound_text env client_id of
        Inl e \<Rightarrow> Inl e
      | Inr cid \<Rightarrow>
          (case find (\<lambda>c. cl_client_id c = cid \<and> cl_is_active c = 1) (clients db) of
             None \<Rightarrow> Inr None
           | Some client \<Rightarrow>
               (case verifySecret env clientSecret (cl_client_secret_hash client) of
                  Inl e \<Rightarrow> Inl e
                | Inr isValid \<Rightarrow> if \<not> isValid then Inr None else Inr (Some client))))"

definition generateTokens :: "environment \<Rightarrow> instant \<Rightarrow> string \<Rightarrow> string \<Rightarrow> string \<Rightarrow> int \<Rightarrow> GeneratedTokens" where
  "generateTokens env now uniq rnd cid expiresIn =
     \<lparr>accessToken = generateAccessToken env now uniq cid expiresIn,
      refreshToken = generateRefreshToken rnd,
      expiresAt = getExpirationDate now expiresIn,
      refreshExpiresAt = getExpirationDate now (expiresIn * 24)\<rparr>"

text \<open>
  The INSERT of \<open>saveSession\<close>. The schema (scripts/initDatabase.ts) declares
  \<open>access_token\<close> and \<open>refresh_token\<close> UNIQUE: the statement throws when either value
  is already in the table, and nothing is written. The new row gets the next
  AUTOINCREMENT id, \<open>is_revoked\<close> 0 by default, and is the row the SELECT by
  \<open>lastInsertRowid\<close> returns.
\<close>

definition saveSession ::
    "database \<Rightarrow> OAuthClient \<Rightarrow> token \<Rightarrow> token \<Rightarrow> instant \<Rightarrow> instant \<Rightarrow> error + OAuthSession \<times> database" where
  "saveSession db client at rt ea rea =
     (if at \<in> set (map s_access_token (sessions db))
         \<or> rt \<in> set (map s_refresh_token (sessions db))
      then Inl SqliteConstraintUnique
      else
        let row = \<lparr>s_id = Suc (sessions_seq db), s_client_id = cl_id client,
                   s_access_token = at, s_refresh_token = rt, s_token_type = ''Bearer'',
                   s_expires_at = ea, s_refresh_expires_at = rea, s_is_revoked = 0\<rparr>
        in Inr (row, db\<lparr>sessions := sessions db @ [row],
                         sessions_seq := Suc (sessions_seq db)\<rparr>))"

text \<open>\<^verbatim>\<open>UPDATE sessions SET is_revoked = 1 WHERE id = ?\<close>\<close>

definition revokeSession :: "database \<Rightarrow> nat \<Rightarrow> database" where
  "revokeSession db sessionId =
     db\<lparr>sessions := map (\<lambda>s. if s_id s = sessionId then s\<lparr>s_is_revoked := 1\<rparr> else s)
                         (sessions db)\<rparr>"

text \<open>\<^verbatim>\<open>UPDATE sessions SET is_revoked = 1 WHERE client_id = ?\<close>\<close>

definition revokeAllClientSessions :: "database \<Rightarrow> nat \<Rightarrow> database" where
  "revokeAllClientSessions db cid =
     db\<lparr>sessions := map (\<lambda>s. if s_client_id s = cid then s\<lparr>s_is_revoked := 1\<rparr> else s)
                         (sessions db)\<rparr>"

text \<open>
  A call that writes returns its result, or the error it throws, together with the
  database it leaves: the service opens no transaction, so what was written before a
  throw stays written.
\<close>

definition createTokenResponse ::
    "environment \<Rightarrow> database \<Rightarrow> instant \<Rightarrow> string \<Rightarrow> string \<Rightarrow> jsvalue \<Rightarrow> jsvalue
      \<Rightarrow> (error + TokenResponse option) \<times> database" where
  "createTokenResponse env db now uniq rnd client_id clientSecret =
     (case authenticateClient env db client_id clientSecret of
        Inl e \<Rightarrow> (Inl e, db)
      | Inr None \<Rightarrow> (Inr None, db)
      | Inr (Some client) \<Rightarrow>
          let g = generateTokens env now uniq rnd (cl_client_id client) 3600 in
          (case saveSession db client (accessToken g) (refreshToken g)
                  (expiresAt g) (refreshExpiresAt g) of
             Inl e \<Rightarrow> (Inl e, db)
           | Inr (row, db') \<Rightarrow>
               (Inr (Some \<lparr>access_token = accessToken g, refresh_token = refreshToken g,
                           token_type = ''Bearer'', expires_in = 3600\<rparr>), db')))"

definition refreshAccessToken ::
    "environment \<Rightarrow> database \<Rightarrow> instant \<Rightarrow> string \<Rightarrow> string \<Rightarrow> token
      \<Rightarrow> (error + TokenResponse option) \<times> database" where
  "refreshAccessToken env db now uniq rnd rt =
     (case find (\<lambda>s. s_refresh_token s = rt \<and> s_is_revoked s = 0) (sessions db) of
        None \<Rightarrow> (Inr None, db)
      | Some session \<Rightarrow>
          if s_refresh_expires_at session < now then (Inr None, db)
          else
            (case find (\<lambda>c. cl_id c = s_client_id session) (clients db) of
               None \<Rightarrow> (Inr None, db)
             | Some client \<Rightarrow>
                 if cl_is_active client \<noteq> 1 then (Inr None, db)
                 else
                   let db1 = revokeSession db (s_id session);
                       g = generateTokens env now uniq rnd (cl_client_id client) 3600
                   in
                   (case saveSession db1 client (accessToken g) (refreshToken g)
                           (expiresAt g) (refreshExpiresAt g) of
                      Inl e \<Rightarrow> (Inl e, db1)
                    | Inr (row, db2) \<Rightarrow>
                        (Inr (Some \<lparr>access_token = accessToken g,
                                    refresh_token = refreshToken g,
                                    token_type = ''Bearer'', expires_in = 3600\<rparr>), db2))))"

definition validateAccessToken :: "environment \<Rightarrow> database \<Rightarrow> instant \<Rightarrow> token \<Rightarrow> OAuthSession option" where
  "validateAccessToken env db now at =
     (case verifyToken env now at of
        Inl e \<Rightarrow> None
      | Inr payload \<Rightarrow>
          (case find (\<lambda>s. s_access_token s = at \<and> s_is_revoked s = 0) (sessions db) of
             None \<Rightarrow> None
           | Some session \<Rightarrow>
               if s_expires_at session < now then None else Some session))"

definition getClientBySession :: "database \<Rightarrow> OAuthSession \<Rightarrow> OAuthClient option" where
  "getClientBySession db session = find (\<lambda>c. cl_id c = s_client_id session) (clients db)"

subsection \<open>AuthService.cleanupExpiredSessions\<close>

text \<open>
  \<^verbatim>\<open>DELETE FROM sessions WHERE expires_at < ?\<close> with \<open>new Date().toISOString()\<close> bound:
  the stored text of a row is compared with the text of the current instant. The result
  is \<open>result.changes\<close>, the number of rows the statement deleted, and the new table.
\<close>

definition cleanupExpiredSessions :: "database \<Rightarrow> instant \<Rightarrow> nat \<times> database" where
  "cleanupExpiredSessions db now =
     (length (filter (\<lambda>s. text_less (toISOString (s_expires_at s)) (toISOString now))
                (sessions db)),
      db\<lparr>sessions := filter (\<lambda>s. \<not> text_less (toISOString (s_expires_at s))
                                           (toISOString now)) (sessions db)\<rparr>)"

subsection \<open>The schema's constraints, and sequences of service calls\<close>

text \<open>
  What the schema of the sessions table guarantees of every database the service
  works on: \<open>id\<close> is the primary key, below the AUTOINCREMENT mark, and
  \<open>access_token\<close> and \<open>refresh_token\<close> are UNIQUE.
\<close>

definition schema_ok :: "database \<Rightarrow> bool" where
  "schema_ok db \<longleftrightarrow>
     distinct (map s_id (sessions db))
   \<and> distinct (map s_access_token (sessions db))
   \<and> distinct (map s_refresh_token (sessions db))
   \<and> list_all (\<lambda>s. s_id s \<le> sessions_seq db) (sessions db)"

text \<open>No row that is not revoked carries the refresh token.\<close>

definition no_live_row :: "token \<Rightarrow> database \<Rightarrow> bool" where
  "no_live_row rt db =
     (find (\<lambda>s. s_refresh_token s = rt \<and> s_is_revoked s = 0) (sessions db) = None)"

text \<open>
  The calls of the service that write, with their arguments, the instant of the call
  and the random bytes it draws; \<open>perform\<close> gives the database a call leaves, whether
  it returns or throws.
\<close>

datatype operation =
    CreateTokenResponse instant string string jsvalue jsvalue
  | RefreshAccessToken instant string string token
  | RevokeSession nat
  | RevokeAllClientSessions nat
  | CleanupExpiredSessions instant

fun perform :: "environment \<Rightarrow> database \<Rightarrow> operation \<Rightarrow> database" where
  "perform env db (CreateTokenResponse now uniq rnd cid sec) =
     snd (createTokenResponse env db now uniq rnd cid sec)"
| "perform env db (RefreshAccessToken now uniq rnd rt) =
     snd (refreshAccessToken env db now uniq rnd rt)"
| "perform env db (RevokeSession i) = revokeSession db i"
| "perform env db (RevokeAllClientSessions c) = revokeAllClientSessions db c"
| "perform env db (CleanupExpiredSessions now) = snd (cleanupExpiredSessions db now)"

text \<open>The call draws, as its new refresh token, the given one.\<close>

fun draws :: "token \<Rightarrow> operation \<Rightarrow> bool" where
  "draws rt (CreateTokenResponse now uniq rnd cid sec) = (generateRefreshToken rnd = rt)"
| "draws rt (RefreshAccessToken now uniq rnd t) = (generateRefreshToken rnd = rt)"
| "draws rt _ = False"

text \<open>
  What holds of every row the service itself issues: the stored expiry of a signed
  access token is not earlier than the expiry embedded in the token.
\<close>

definition issuance_ok :: "database \<Rightarrow> bool" where
  "issuance_ok db =
     list_all (\<lambda>s. case s_access_token s of
                      Jwt p k \<Rightarrow> 1000 * exp p \<le> s_expires_at s
                    | Opaque x \<Rightarrow> True) (sessions db)"

subsection \<open>A database to run the service on\<close>

text \<open>
  A keyed hash stands in for bcrypt in the examples, and a binding that refuses every
  value that is not a text; the clients are an active one and an inactive one.
\<close>

definition example_env :: environment where
  "example_env = \<lparr>bcrypt_compare = (\<lambda>plainText hash. hash = ''bcrypt:'' @ plainText),
                   bind_parameter = (\<lambda>v. Inl (Error ''cannot bind the value'')),
                   jwtSecret = ''your_jwt_secret''\<rparr>"

definition acme :: OAuthClient where
  "acme = \<lparr>cl_id = 1, cl_client_id = ''acme'', cl_client_secret_hash = ''bcrypt:s3cr3t'',
           cl_name = ''Acme'', cl_is_active = 1\<rparr>"

definition dormant :: OAuthClient where
  "dormant = \<lparr>cl_id = 2, cl_client_id = ''dormant'', cl_client_secret_hash = ''bcrypt:pw'',
           cl_name = ''Dormant'', cl_is_active = 0\<rparr>"

definition example_db :: database where
  "example_db = \<lparr>clients = [acme, dormant], sessions = [], sessions_seq = 0\<rparr>"

text \<open>
  The example database after \<open>acme\<close> has been issued a token pair, and after it has
  exchanged the refresh token of that pair.
\<close>

definition issued_db :: database where
  "issued_db = snd (createTokenResponse example_env example_db 1000000 ''j1'' ''r1''
                      (JStr ''acme'') (JStr ''s3cr3t''))"

definition refreshed_db :: database where
  "refreshed_db = snd (refreshAccessToken example_env issued_db 1000500 ''j2'' ''r2'' (Opaque ''r1''))"

definition later_calls :: "operation list" where
  "later_calls = [CleanupExpiredSessions 5000000,
                  CreateTokenResponse 5000100 ''j3'' ''r3'' (JStr ''acme'') (JStr ''s3cr3t''),
                  RevokeSession 3,
                  RefreshAccessToken 5000200 ''j4'' ''r4'' (Opaque ''r3'')]"

subsection \<open>AuthController (controllers/authController.ts)\<close>

text \<open>
  The body of a request to POST /auth/token is what the JSON body parser leaves, any
  value: the cast to \<open>TokenRequest\<close> checks nothing. The bodies of the two other
  routes are taken with a field absent or a text. A response is the status passed to
  \<open>res.status\<close> and the body passed to \<open>res.json\<close>.
\<close>

record RefreshTokenRequest =
  req_refresh_token :: "token option"
  req_refresh_grant_type :: "string option"

record RevokeRequest =
  req_token :: "token option"

datatype auth_body =
  ErrorResponse string string
  | TokenBody TokenResponse
  | Message string

type_synonym auth_response = "nat \<times> auth_body"

text \<open>JavaScript's \<open>!x\<close> on a field that is absent or a text: true when absent or empty.\<close>

definition falsy :: "string option \<Rightarrow> bool" where
  "falsy v = (case v of None \<Rightarrow> True | Some s \<Rightarrow> s = [])"

definition falsy_token :: "token option \<Rightarrow> bool" where
  "falsy_token v = (case v of None \<Rightarrow> True | Some t \<Rightarrow> t = Opaque [])"

definition server_error :: auth_response where
  "server_error = (500, ErrorResponse ''server_error'' ''An unexpected error occurred'')"

text \<open>
  \<open>AuthController.token\<close>. Destructuring a body that is undefined or null throws inside
  the \<open>try\<close>; whatever is thrown there is answered with 500.
\<close>

definition AuthController_token ::
    "environment \<Rightarrow> database \<Rightarrow> instant \<Rightarrow> string \<Rightarrow> string \<Rightarrow> jsvalue \<Rightarrow> auth_response \<times> database" where
  "AuthController_token env db now uniq rnd body =
     (if body = JUndefined \<or> body = JNull then (server_error, db)
      else
        let client_id = get_field body ''client_id'';
            client_secret = get_field body ''client_secret'';
            grant_type = get_field body ''grant_type''
        in
        if \<not> (truthy client_id \<and> truthy client_secret \<and> truthy grant_type)
        then ((400, ErrorResponse ''invalid_request''
                 ''Missing required parameters: client_id, client_secret, grant_type''), db)
        else if grant_type \<noteq> JStr ''client_credentials''
        then ((400, ErrorResponse ''unsupported_grant_type''
                 ''Only client_credentials grant type is supported''), db)
        else
          (case createTokenResponse env db now uniq rnd client_id client_secret of
             (Inl e, db') \<Rightarrow> (server_error, db')
           | (Inr None, db') \<Rightarrow>
               ((401, ErrorResponse ''invalid_client'' ''Client authentication failed''), db')
           | (Inr (Some tokenResponse), db') \<Rightarrow> ((200, TokenBody tokenResponse), db')))"

definition AuthController_refresh ::
    "environment \<Rightarrow> database \<Rightarrow> instant \<Rightarrow> string \<Rightarrow> string \<Rightarrow> RefreshTokenRequest \<Rightarrow> auth_response \<times> database" where
  "AuthController_refresh env db now uniq rnd req =
     (if falsy_token (req_refresh_token req) \<or> falsy (req_refresh_grant_type req)
      then ((400, ErrorResponse ''invalid_request''
               ''Missing required parameters: refresh_token, grant_type''), db)
      else if req_refresh_grant_type req \<noteq> Some ''refresh_token''
      then ((400, ErrorResponse ''unsupported_grant_type''
               ''Only refresh_token grant type is supported''), db)
      else
        (case req_refresh_token req of
           Some rt \<Rightarrow>
             (case refreshAccessToken env db now uniq rnd rt of
                (Inl e, db') \<Rightarrow> (server_error, db')
              | (Inr None, db') \<Rightarrow>
                  ((401, ErrorResponse ''invalid_grant'' ''Invalid or expired refresh token''), db')
              | (Inr (Some tokenResponse), db') \<Rightarrow> ((200, TokenBody tokenResponse), db'))
         | None \<Rightarrow> (server_error, db)))"

definition AuthController_revoke ::
    "environment \<Rightarrow> database \<Rightarrow> instant \<Rightarrow> RevokeRequest \<Rightarrow> auth_response \<times> database" where
  "AuthController_revoke env db now req =
     (if falsy_token (req_token req)
      then ((400, ErrorResponse ''invalid_request'' ''Missing required parameter: token''), db)
      else
        (case req_token req of
           Some t \<Rightarrow>
             (case validateAccessToken env db now t of
                Some session \<Rightarrow>
                  ((200, Message ''Token revoked successfully''), revokeSession db (s_id session))
              | None \<Rightarrow> ((200, Message ''Token revoked successfully''), db))
         | None \<Rightarrow> (server_error, db)))"

text \<open>The three ways of the spec in which a pair of credentials fails.\<close>

datatype failure = UnknownIdentifier | InactiveClient | WrongSecret

fun fails_by :: "environment \<Rightarrow> database \<Rightarrow> string \<Rightarrow> string \<Rightarrow> failure \<Rightarrow> bool" where
  "fails_by env db cid sec UnknownIdentifier =
     (cid \<notin> set (map cl_client_id (clients db)))"
| "fails_by env db cid sec InactiveClient =
     (cid \<in> set (map cl_client_id (clients db))
      \<and> filter (\<lambda>c. cl_client_id c = cid \<and> cl_is_active c = 1) (clients db) = [])"
| "fails_by env db cid sec WrongSecret =
     (case find (\<lambda>c. cl_client_id c = cid \<and> cl_is_active c = 1) (clients db) of
        None \<Rightarrow> False
      | Some c \<Rightarrow> \<not> bcrypt_compare env sec (cl_client_secret_hash c))"

text \<open>The access token of the pair issued in the example database.\<close>

definition issued_token :: token where
  "issued_token = Jwt \<lparr>clientId = ''acme'', type = access, jti = ''j1'', iat = 1000, exp = 4600\<rparr>
                    ''your_jwt_secret''"

text \<open>
  The example database with one session saved through \<open>saveSession\<close> with an expiry
  of the caller's choice, as the repository's tests do: the access token issued at
  instant 1000000, stored with the expiry instant 1000100.
\<close>

definition boundary_db :: database where
  "boundary_db = (case saveSession example_db acme issued_token (Opaque ''r1'') 1000100 87400000 of
                    Inl e \<Rightarrow> example_db | Inr (row, db') \<Rightarrow> db')"

text \<open>
  The example database with one session saved through \<open>saveSession\<close> with an expiry
  at the first instant of the year 10000, and an instant of the year 2026.
\<close>

definition far_expiry :: instant where
  "far_expiry = 253402300800000"

definition far_db :: database where
  "far_db = (case saveSession example_db acme issued_token (Opaque ''r1'') far_expiry far_expiry of
               Inl e \<Rightarrow> example_db | Inr (row, db') \<Rightarrow> db')"

definition in_2026 :: instant where
  "in_2026 = 1767225600000"

text \<open>
  A body for POST /auth/token with the given client identifier and the number 123 as
  the secret.
\<close>

definition number_secret_body :: "string \<Rightarrow> jsvalue" where
  "number_secret_body cid =
     JObj [(''client_id'', JStr cid), (''client_secret'', JNum 123),
           (''grant_type'', JStr ''client_credentials'')]"

section \<open>Integration registry (config/integrations.ts)\<close>

subsection \<open>The platform\<close>

text \<open>
  The functions of Node and of the JavaScript runtime that the code calls and the
  repository does not define; they are parameters of the model:
  \<open>crypto.createHmac('sha256', key).update(data).digest('hex')\<close>, the base64 text of a
  buffer, \<open>encodeURIComponent\<close>, \<open>JSON.stringify\<close>, the conversion to a text of a value
  that is not one, the instant of \<open>new Date(v)\<close> (none for an invalid date), and the test of the
  e-mail pattern of the reservation transformer by the regular expression engine.
\<close>

record platform =
  hmac_sha256_hex :: "string \<Rightarrow> string \<Rightarrow> string"
  base64 :: "string \<Rightarrow> string"
  encodeURIComponent :: "string \<Rightarrow> string"
  JSON_stringify :: "jsvalue \<Rightarrow> string"
  String_of :: "jsvalue \<Rightarrow> string"
  Date_of :: "jsvalue \<Rightarrow> instant option"
  emailRegex_test :: "string \<Rightarrow> bool"

text \<open>\<open>String(v)\<close>, the text a value is coerced to: a text is itself.\<close>

definition text_of :: "platform \<Rightarrow> jsvalue \<Rightarrow> string" where
  "text_of pf v = (case v of JStr s \<Rightarrow> s | _ \<Rightarrow> String_of pf v)"

text \<open>
  \<open>crypto.timingSafeEqual\<close> throws a range error when the two buffers differ in
  length, and compares them otherwise.
\<close>

definition timingSafeEqual :: "string \<Rightarrow> string \<Rightarrow> error + bool" where
  "timingSafeEqual a b = (if length a \<noteq> length b then Inl RangeError else Inr (a = b))"

subsection \<open>The configuration\<close>

datatype auth_kind = auth_none | auth_basic | auth_bearer | auth_oauth2 | auth_api_key

datatype http_method = GET | POST | PUT | PATCH | DELETE

record credentials =
  cred_username :: "string option"
  cred_password :: "string option"
  cred_token :: "string option"
  cred_apiKey :: "string option"
  cred_clientId :: "string option"
  cred_clientSecret :: "string option"

record IntegrationAuth =
  auth_type :: auth_kind
  auth_credentials :: "credentials option"
  auth_headers :: "(string \<rightharpoonup> string) option"

record IntegrationEndpoint =
  ep_path :: string
  ep_method :: "http_method option"
  ep_transformer :: "string option"

record webhooks_config =
  wh_enabled :: bool
  wh_secret :: "string option"
  wh_events :: "string list option"

record IntegrationConfig =
  ic_name :: string
  ic_enabled :: bool
  ic_baseUrl :: string
  ic_auth :: IntegrationAuth
  ic_endpoints :: "string \<rightharpoonup> IntegrationEndpoint"
  ic_timeout :: "nat option"
  ic_retries :: "nat option"
  ic_webhooks :: "webhooks_config option"

type_synonym IntegrationsConfig = "string \<rightharpoonup> IntegrationConfig"

text \<open>\<open>process.env.NAME || fallback\<close>\<close>

definition env_or :: "(string \<rightharpoonup> string) \<Rightarrow> string \<Rightarrow> string \<Rightarrow> string" where
  "env_or penv name fallback =
     (case penv name of None \<Rightarrow> fallback | Some v \<Rightarrow> if v = [] then fallback else v)"

definition no_credentials :: credentials where
  "no_credentials = \<lparr>cred_username = None, cred_password = None, cred_token = None,
                      cred_apiKey = None, cred_clientId = None, cred_clientSecret = None\<rparr>"

definition booking_engine :: "(string \<rightharpoonup> string) \<Rightarrow> IntegrationConfig" where
  "booking_engine penv =
     \<lparr>ic_name = ''Booking Engine'', ic_enabled = True,
      ic_baseUrl = env_or penv ''BOOKING_ENGINE_URL'' ''https://api.booking-engine.example.com'',
      ic_auth = \<lparr>auth_type = auth_api_key,
                 auth_credentials =
                   Some (no_credentials\<lparr>cred_apiKey := Some (env_or penv ''BOOKING_ENGINE_API_KEY'' [])\<rparr>),
                 auth_headers = Some [''X-API-Key'' \<mapsto> env_or penv ''BOOKING_ENGINE_API_KEY'' []]\<rparr>,
      ic_endpoints =
        [''createReservation'' \<mapsto>
           \<lparr>ep_path = ''/v1/reservations'', ep_method = Some POST,
            ep_transformer = Some ''BookingReservationTransformer''\<rparr>,
         ''getReservation'' \<mapsto>
           \<lparr>ep_path = ''/v1/reservations/{id}'', ep_method = Some GET, ep_transformer = None\<rparr>,
         ''updateReservation'' \<mapsto>
           \<lparr>ep_path = ''/v1/reservations/{id}'', ep_method = Some PUT,
            ep_transformer = Some ''BookingReservationTransformer''\<rparr>,
         ''cancelReservation'' \<mapsto>
           \<lparr>ep_path = ''/v1/reservations/{id}'', ep_method = Some DELETE, ep_transformer = None\<rparr>],
      ic_timeout = Some 30000, ic_retries = Some 3,
      ic_webhooks = Some \<lparr>wh_enabled = True, wh_secret = penv ''BOOKING_ENGINE_WEBHOOK_SECRET'',
                          wh_events = Some [''reservation.created'', ''reservation.updated'',
                                            ''reservation.cancelled'']\<rparr>\<rparr>"

definition pms_system :: "(string \<rightharpoonup> string) \<Rightarrow> IntegrationConfig" where
  "pms_system penv =
     \<lparr>ic_name = ''PMS System'', ic_enabled = True,
      ic_baseUrl = env_or penv ''PMS_SYSTEM_URL'' ''https://api.pms.example.com'',
      ic_auth = \<lparr>auth_type = auth_bearer,
                 auth_credentials =
                   Some (no_credentials\<lparr>cred_token := Some (env_or penv ''PMS_SYSTEM_TOKEN'' [])\<rparr>),
                 auth_headers = None\<rparr>,
      ic_endpoints =
        [''syncGuest'' \<mapsto>
           \<lparr>ep_path = ''/api/guests'', ep_method = Some POST,
            ep_transformer = Some ''PMSGuestTransformer''\<rparr>,
         ''syncReservation'' \<mapsto>
           \<lparr>ep_path = ''/api/reservations'', ep_method = Some POST,
            ep_transformer = Some ''PMSReservationTransformer''\<rparr>,
         ''updateRoom'' \<mapsto>
           \<lparr>ep_path = ''/api/rooms/{id}'', ep_method = Some PUT, ep_transformer = None\<rparr>],
      ic_timeout = Some 20000, ic_retries = Some 2,
      ic_webhooks = Some \<lparr>wh_enabled = False, wh_secret = None, wh_events = None\<rparr>\<rparr>"

definition channel_manager :: "(string \<rightharpoonup> string) \<Rightarrow> IntegrationConfig" where
  "channel_manager penv =
     \<lparr>ic_name = ''Channel Manager'', ic_enabled = False,
      ic_baseUrl = env_or penv ''CHANNEL_MANAGER_URL'' ''https://api.channelmanager.example.com'',
      ic_auth = \<lparr>auth_type = auth_oauth2,
                 auth_credentials =
                   Some (no_credentials\<lparr>cred_clientId := penv ''CHANNEL_MANAGER_CLIENT_ID'',
                                         cred_clientSecret := penv ''CHANNEL_MANAGER_CLIENT_SECRET''\<rparr>),
                 auth_headers = None\<rparr>,
      ic_endpoints =
        [''updateAvailability'' \<mapsto>
           \<lparr>ep_path = ''/v1/availability'', ep_method = Some POST, ep_transformer = None\<rparr>,
         ''updatePricing'' \<mapsto>
           \<lparr>ep_path = ''/v1/pricing'', ep_method = Some POST, ep_transformer = None\<rparr>],
      ic_timeout = Some 15000, ic_retries = Some 3,
      ic_webhooks = None\<rparr>"

definition defaultIntegrations :: "(string \<rightharpoonup> string) \<Rightarrow> IntegrationsConfig" where
  "defaultIntegrations penv =
     [''booking_engine'' \<mapsto> booking_engine penv,
      ''pms_system'' \<mapsto> pms_system penv,
      ''channel_manager'' \<mapsto> channel_manager penv]"

subsection \<open>Indexing a plain object\<close>

text \<open>
  The registry and the endpoints of an integration are plain objects, indexed with a
  name that comes from the request: \<open>obj[name]\<close> is an own property, or a member that
  the object inherits from \<open>Object.prototype\<close>, or undefined. The inherited members are
  functions, and \<open>__proto__\<close> gives the prototype itself: truthy values, none of which
  has any of the properties the code goes on to read.
\<close>

definition Object_prototype :: "string list" where
  "Object_prototype =
     [''constructor'', ''__defineGetter__'', ''__defineSetter__'', ''hasOwnProperty'',
      ''__lookupGetter__'', ''__lookupSetter__'', ''isPrototypeOf'', ''propertyIsEnumerable'',
      ''toString'', ''valueOf'', ''__proto__'', ''toLocaleString'']"

datatype 'a property = Undefined | Own 'a | Inherited

definition property :: "(string \<rightharpoonup> 'a) \<Rightarrow> string \<Rightarrow> 'a property" where
  "property obj name =
     (case obj name of
        Some v \<Rightarrow> Own v
      | None \<Rightarrow> if name \<in> set Object_prototype then Inherited else Undefined)"

subsection \<open>IntegrationManager\<close>

text \<open>
  A function that can throw returns the message of the error on the left. The message
  of a type error is the one of Node.
\<close>

definition getIntegration :: "IntegrationsConfig \<Rightarrow> string \<Rightarrow> IntegrationConfig property" where
  "getIntegration integrations name = property integrations name"

text \<open>\<open>integration?.enabled || false\<close>\<close>

definition isEnabled :: "IntegrationsConfig \<Rightarrow> string \<Rightarrow> bool" where
  "isEnabled integrations name =
     (case getIntegration integrations name of Own i \<Rightarrow> ic_enabled i | _ \<Rightarrow> False)"

text \<open>
  \<open>integration?.endpoints[endpointName]\<close>: undefined when the integration is; on an
  inherited member, which has no \<open>endpoints\<close>, the index throws.
\<close>

definition getEndpoint ::
    "IntegrationsConfig \<Rightarrow> string \<Rightarrow> string \<Rightarrow> string + IntegrationEndpoint property" where
  "getEndpoint integrations integrationName endpointName =
     (case getIntegration integrations integrationName of
        Undefined \<Rightarrow> Inr Undefined
      | Inherited \<Rightarrow>
          Inl (''Cannot read properties of undefined (reading ''
               @ [CHR 0x27] @ endpointName @ [CHR 0x27] @ '')'')
      | Own i \<Rightarrow> Inr (property (ic_endpoints i) endpointName))"

text \<open>\<open>text.replace(pattern, replacement)\<close> with a text pattern: the first occurrence.\<close>

fun replace_first :: "string \<Rightarrow> string \<Rightarrow> string \<Rightarrow> string" where
  "replace_first pat rep [] = (if pat = [] then rep else [])"
| "replace_first pat rep (c # cs) =
     (if take (length pat) (c # cs) = pat then rep @ drop (length pat) (c # cs)
      else c # replace_first pat rep cs)"

text \<open>
  The loop of \<open>buildUrl\<close> over \<open>Object.entries(params)\<close>; \<open>encodeURIComponent\<close> coerces
  its argument to a text.
\<close>

definition fill_path :: "platform \<Rightarrow> string \<Rightarrow> (string \<times> jsvalue) list \<Rightarrow> string" where
  "fill_path pf path params =
     foldl (\<lambda>path (key, v).
              replace_first (''{'' @ key @ ''}'') (encodeURIComponent pf (text_of pf v)) path)
       path params"

text \<open>
  \<open>buildUrl\<close>: null when the integration or the endpoint is undefined. An inherited
  member taken for the endpoint has no \<open>path\<close>: the first replacement throws, and
  without parameters the undefined path is written into the text.
\<close>

definition buildUrl ::
    "platform \<Rightarrow> IntegrationsConfig \<Rightarrow> string \<Rightarrow> string \<Rightarrow> (string \<times> jsvalue) list
      \<Rightarrow> string + string option" where
  "buildUrl pf integrations integrationName endpointName params =
     (case getEndpoint integrations integrationName endpointName of
        Inl message \<Rightarrow> Inl message
      | Inr endpoint \<Rightarrow>
          (case getIntegration integrations integrationName of
             Own integration \<Rightarrow>
               (case endpoint of
                  Undefined \<Rightarrow> Inr None
                | Own ep \<Rightarrow> Inr (Some (ic_baseUrl integration @ fill_path pf (ep_path ep) params))
                | Inherited \<Rightarrow>
                    if params = [] then Inr (Some (ic_baseUrl integration @ ''undefined''))
                    else Inl ''Cannot read properties of undefined (reading 'replace')'')
           | _ \<Rightarrow> Inr None))"

text \<open>
  \<open>getAuthHeaders\<close>: no headers for an integration that is undefined; an inherited
  member has no \<open>auth\<close>, and reading its headers throws.
\<close>

definition getAuthHeaders ::
    "platform \<Rightarrow> IntegrationsConfig \<Rightarrow> string \<Rightarrow> string + (string \<rightharpoonup> string)" where
  "getAuthHeaders pf integrations integrationName =
     (case getIntegration integrations integrationName of
        Undefined \<Rightarrow> Inr Map.empty
      | Inherited \<Rightarrow> Inl ''Cannot read properties of undefined (reading 'headers')''
      | Own integration \<Rightarrow>
          let headers = (case auth_headers (ic_auth integration) of
                           None \<Rightarrow> Map.empty | Some h \<Rightarrow> h);
              credentials = (case auth_credentials (ic_auth integration) of
                               None \<Rightarrow> no_credentials | Some c \<Rightarrow> c)
          in
          Inr (case auth_type (ic_auth integration) of
             auth_bearer \<Rightarrow>
               (case cred_token credentials of
                  Some tok \<Rightarrow>
                    if tok \<noteq> [] then headers(''Authorization'' \<mapsto> ''Bearer '' @ tok)
                    else headers
                | None \<Rightarrow> headers)
           | auth_basic \<Rightarrow>
               (case (cred_username credentials, cred_password credentials) of
                  (Some u, Some p) \<Rightarrow>
                    if u \<noteq> [] \<and> p \<noteq> []
                    then headers(''Authorization'' \<mapsto> ''Basic '' @ base64 pf (u @ '':'' @ p))
                    else headers
                | _ \<Rightarrow> headers)
           | auth_api_key \<Rightarrow>
               (case cred_apiKey credentials of
                  Some k \<Rightarrow>
                    if k \<noteq> [] \<and> \<not> truthy_text (headers ''X-API-Key'')
                    then headers(''X-API-Key'' \<mapsto> k)
                    else headers
                | None \<Rightarrow> headers)
           | _ \<Rightarrow> headers))"

text \<open>\<open>integration?.webhooks?.secret\<close>, \<open>config?.webhooks\<close>\<close>

definition webhooks_of :: "IntegrationsConfig \<Rightarrow> string \<Rightarrow> webhooks_config option" where
  "webhooks_of integrations integrationName =
     (case getIntegration integrations integrationName of
        Own integration \<Rightarrow> ic_webhooks integration
      | _ \<Rightarrow> None)"

definition validateWebhookSignature ::
    "platform \<Rightarrow> IntegrationsConfig \<Rightarrow> string \<Rightarrow> string \<Rightarrow> string \<Rightarrow> error + bool" where
  "validateWebhookSignature pf integrations integrationName payload signature =
     (case (case webhooks_of integrations integrationName of
              None \<Rightarrow> None | Some w \<Rightarrow> wh_secret w) of
        None \<Rightarrow> Inr False
      | Some secret \<Rightarrow>
          if secret = [] then Inr False
          else timingSafeEqual signature (hmac_sha256_hex pf secret payload))"

section \<open>Webhook controller (controllers/webhookController.ts)\<close>

text \<open>
  A request to a webhook route: the route parameters, the parsed body, and the value
  of the \<open>x-webhook-signature\<close> header when the request carries one. A response is
  the status and the JSON body.
\<close>

record webhook_request =
  wr_integration :: string
  wr_event :: string
  wr_body :: jsvalue
  wr_signature :: "string option"

type_synonym http_response = "nat \<times> jsvalue"

definition quoted :: "string \<Rightarrow> string" where
  "quoted s = [CHR 0x22] @ s @ [CHR 0x22]"

definition processWebhook :: "string \<Rightarrow> string \<Rightarrow> jsvalue \<Rightarrow> jsvalue \<Rightarrow> jsvalue" where
  "processWebhook timestamp integration event payload =
     JObj [(''processed'', JBool True), (''timestamp'', JStr timestamp),
           (''event'', event), (''integration'', JStr integration)]"

text \<open>
  \<open>WebhookController.validateSignature\<close>: whatever is thrown inside is caught and
  gives false.
\<close>

definition validateSignature :: "platform \<Rightarrow> string \<Rightarrow> string \<Rightarrow> string \<Rightarrow> bool" where
  "validateSignature pf payload signature secret =
     (case timingSafeEqual signature (hmac_sha256_hex pf secret payload) of
        Inl e \<Rightarrow> False
      | Inr b \<Rightarrow> b)"

text \<open>
  The signature step of both routes: the check runs only when the secret and the
  header are both truthy; the result is whether the request is turned down with 401.
  \<open>JSON.stringify(undefined)\<close> is not a text, the HMAC update throws on it, and the
  check gives false.
\<close>

definition signature_refused :: "platform \<Rightarrow> string option \<Rightarrow> webhook_request \<Rightarrow> bool" where
  "signature_refused pf secret req =
     (case (secret, wr_signature req) of
        (Some sec, Some signature) \<Rightarrow>
          if sec \<noteq> [] \<and> signature \<noteq> []
          then \<not> (wr_body req \<noteq> JUndefined
                  \<and> validateSignature pf (JSON_stringify pf (wr_body req)) signature sec)
          else False
      | _ \<Rightarrow> False)"

definition invalid_signature :: http_response where
  "invalid_signature =
     (401, JObj [(''error'', JStr ''invalid_signature''),
                 (''message'', JStr ''Webhook signature validation failed'')])"

definition integration_not_found :: "string \<Rightarrow> http_response" where
  "integration_not_found integration =
     (404, JObj [(''error'', JStr ''integration_not_found''),
                 (''message'', JStr (''Integration '' @ quoted integration
                                      @ '' not found or disabled''))])"

text \<open>
  \<open>receive\<close>, POST /webhooks/:integration. Reading \<open>req.body.event\<close> is outside the
  \<open>try\<close>: on a body that is undefined or null it throws, and no response is sent.
\<close>

definition receive ::
    "platform \<Rightarrow> IntegrationsConfig \<Rightarrow> string \<Rightarrow> webhook_request \<Rightarrow> error + http_response" where
  "receive pf integrations timestamp req =
     (if wr_body req = JUndefined \<or> wr_body req = JNull then Inl (Error ''TypeError'')
      else
        let integration = wr_integration req;
            event = (if truthy (get_field (wr_body req) ''event'')
                     then get_field (wr_body req) ''event'' else JStr ''unknown'')
        in
        if \<not> isEnabled integrations integration then Inr (integration_not_found integration)
        else
          (case webhooks_of integrations integration of
             None \<Rightarrow>
               Inr (400, JObj [(''error'', JStr ''webhooks_disabled''),
                     (''message'', JStr (''Webhooks not enabled for integration ''
                                          @ quoted integration))])
           | Some wh \<Rightarrow>
               if \<not> wh_enabled wh
               then Inr (400, JObj [(''error'', JStr ''webhooks_disabled''),
                     (''message'', JStr (''Webhooks not enabled for integration ''
                                          @ quoted integration))])
               else if signature_refused pf (wh_secret wh) req then Inr invalid_signature
               else Inr (200, JObj [(''success'', JBool True),
                          (''message'', JStr ''Webhook received and processed''),
                          (''data'', processWebhook timestamp integration event (wr_body req))])))"

text \<open>\<open>receiveEvent\<close>, POST /webhooks/:integration/:event.\<close>

definition receiveEvent ::
    "platform \<Rightarrow> IntegrationsConfig \<Rightarrow> string \<Rightarrow> webhook_request \<Rightarrow> error + http_response" where
  "receiveEvent pf integrations timestamp req =
     (let integration = wr_integration req; event = wr_event req in
      if \<not> isEnabled integrations integration then Inr (integration_not_found integration)
      else
        let wh = webhooks_of integrations integration;
            events = (case wh of None \<Rightarrow> None | Some w \<Rightarrow> wh_events w);
            secret = (case wh of None \<Rightarrow> None | Some w \<Rightarrow> wh_secret w)
        in
        if (case events of None \<Rightarrow> False | Some es \<Rightarrow> event \<notin> set es)
        then Inr (400, JObj [(''error'', JStr ''event_not_allowed''),
               (''message'', JStr (''Event '' @ quoted event
                                    @ '' not allowed for this integration''))])
        else if signature_refused pf secret req then Inr invalid_signature
        else Inr (200, JObj [(''success'', JBool True), (''event'', JStr event),
                   (''data'', processWebhook timestamp integration (JStr event) (wr_body req))]))"

text \<open>Two texts of one length that differ in exactly one byte.\<close>

definition single_byte_mutation :: "string \<Rightarrow> string \<Rightarrow> bool" where
  "single_byte_mutation xs ys =
     (length xs = length ys \<and> length (filter (\<lambda>(x, y). x \<noteq> y) (zip xs ys)) = 1)"

text \<open>
  Examples: a platform whose keyed digest is a toy (the key, a colon, the payload), and a
  configuration with one integration that declares a bearer token together with a
  static Authorization header, and one that declares an API key together with a static
  X-API-Key header.
\<close>

definition toy_platform :: platform where
  "toy_platform =
     \<lparr>hmac_sha256_hex = (\<lambda>key data. key @ '':'' @ data),
      base64 = (\<lambda>s. s),
      encodeURIComponent = (\<lambda>s. s),
      JSON_stringify = (\<lambda>v. case v of JStr s \<Rightarrow> s | _ \<Rightarrow> ''{}''),
      String_of = (\<lambda>v. case v of JStr s \<Rightarrow> s | _ \<Rightarrow> []),
      Date_of = (\<lambda>v. case v of JNum n \<Rightarrow> Some n | _ \<Rightarrow> None),
      emailRegex_test = (\<lambda>s. CHR ''@'' \<in> set s)\<rparr>"

definition static_header_integrations :: IntegrationsConfig where
  "static_header_integrations =
     [''with_bearer'' \<mapsto>
        \<lparr>ic_name = ''With bearer'', ic_enabled = True, ic_baseUrl = ''https://upstream.example.com'',
         ic_auth = \<lparr>auth_type = auth_bearer,
                    auth_credentials = Some (no_credentials\<lparr>cred_token := Some ''tok''\<rparr>),
                    auth_headers = Some [''Authorization'' \<mapsto> ''Static value'']\<rparr>,
         ic_endpoints = Map.empty, ic_timeout = None, ic_retries = None, ic_webhooks = None\<rparr>,
      ''with_api_key'' \<mapsto>
        \<lparr>ic_name = ''With API key'', ic_enabled = True, ic_baseUrl = ''https://upstream.example.com'',
         ic_auth = \<lparr>auth_type = auth_api_key,
                    auth_credentials = Some (no_credentials\<lparr>cred_apiKey := Some ''key''\<rparr>),
                    auth_headers = Some [''X-API-Key'' \<mapsto> ''Static value'']\<rparr>,
         ic_endpoints = Map.empty, ic_timeout = None, ic_retries = None, ic_webhooks = None\<rparr>]"

text \<open>A process environment that sets the webhook secret of the booking engine.\<close>

definition example_penv :: "string \<rightharpoonup> string" where
  "example_penv = [''BOOKING_ENGINE_WEBHOOK_SECRET'' \<mapsto> ''whsec'']"

text \<open>A webhook to the booking engine that carries no signature header.\<close>

definition unsigned_request :: webhook_request where
  "unsigned_request =
     \<lparr>wr_integration = ''booking_engine'', wr_event = ''reservation.created'',
      wr_body = JObj [(''event'', JStr ''reservation.created''), (''id'', JNum 7)],
      wr_signature = None\<rparr>"

text \<open>A webhook to the PMS system, whose webhook descriptor is disabled by default.\<close>

definition pms_request :: webhook_request where
  "pms_request =
     \<lparr>wr_integration = ''pms_system'', wr_event = ''reservation.created'',
      wr_body = JObj [(''id'', JNum 7)], wr_signature = None\<rparr>"

section \<open>Transformers (transformers/baseTransformer.ts, registry.ts, examples)\<close>

text \<open>
  A transformer: its name, its \<open>validate\<close> and its \<open>transform\<close>. Either may throw an
  \<open>Error\<close>; the left summand is the message of the error thrown.
\<close>

record Transformer =
  t_name :: string
  t_validate :: "jsvalue \<Rightarrow> string + bool"
  t_transform :: "jsvalue \<Rightarrow> string + jsvalue"

text \<open>\<open>BaseTransformer.validate\<close>, the default.\<close>

definition BaseTransformer_validate :: "jsvalue \<Rightarrow> bool" where
  "BaseTransformer_validate input = (input \<noteq> JNull \<and> input \<noteq> JUndefined)"

text \<open>
  \<open>BaseTransformer.execute\<close>. The \<open>catch\<close> logs \<open>JSON.stringify(input).substring(0, 500)\<close>
  and throws the error again; for an undefined input \<open>JSON.stringify\<close> gives undefined
  and the log line itself throws a type error, which replaces the first error.
\<close>

definition execute :: "Transformer \<Rightarrow> jsvalue \<Rightarrow> string + jsvalue" where
  "execute t input =
     (case (case t_validate t input of
              Inl m \<Rightarrow> Inl m
            | Inr ok \<Rightarrow> if \<not> ok then Inl ''Input validation failed'' else t_transform t input) of
        Inl m \<Rightarrow>
          if input = JUndefined
          then Inl ''Cannot read properties of undefined (reading 'substring')''
          else Inl m
      | Inr output \<Rightarrow> Inr output)"

type_synonym TransformerRegistry = "string \<rightharpoonup> Transformer"

definition register :: "TransformerRegistry \<Rightarrow> string \<Rightarrow> Transformer \<Rightarrow> TransformerRegistry" where
  "register transformers name t = transformers(name \<mapsto> t)"

text \<open>\<open>TransformerRegistry.transform\<close>\<close>

definition transform :: "TransformerRegistry \<Rightarrow> string \<Rightarrow> jsvalue \<Rightarrow> string + jsvalue" where
  "transform transformers transformerName input =
     (case transformers transformerName of
        None \<Rightarrow> Inl (''Transformer '' @ quoted transformerName @ '' not found'')
      | Some t \<Rightarrow> execute t input)"

subsection \<open>BookingReservationTransformer\<close>

definition parseDate :: "platform \<Rightarrow> jsvalue \<Rightarrow> instant option" where
  "parseDate pf dateString = (if \<not> truthy dateString then None else Date_of pf dateString)"

definition formatDate :: "platform \<Rightarrow> jsvalue \<Rightarrow> string + string" where
  "formatDate pf date =
     (if \<not> truthy date then Inr []
      else (case Date_of pf date of
              None \<Rightarrow> Inl ''Invalid time value''
            | Some t \<Rightarrow> Inr (toISOString t)))"

text \<open>\<open>phone.replace(/[^\d+]/g, '')\<close>; a truthy value that is not a text has no \<open>replace\<close>.\<close>

definition cleanPhone :: "jsvalue \<Rightarrow> string + string" where
  "cleanPhone phone =
     (if \<not> truthy phone then Inr []
      else (case phone of
              JStr s \<Rightarrow> Inr (filter (\<lambda>c. c \<in> set ''0123456789+'') s)
            | _ \<Rightarrow> Inl ''phone.replace is not a function''))"

definition required :: "string list" where
  "required = [''reservationId'', ''guestName'', ''guestEmail'', ''checkInDate'',
               ''checkOutDate'', ''roomType'', ''numberOfGuests'', ''totalAmount'']"

definition booking_validate :: "platform \<Rightarrow> jsvalue \<Rightarrow> string + bool" where
  "booking_validate pf input =
     (if \<not> BaseTransformer_validate input then Inr False
      else
        (case find (\<lambda>field. \<not> truthy (get_field input field)) required of
           Some field \<Rightarrow> Inl (''Required field missing: '' @ field)
         | None \<Rightarrow>
             if \<not> emailRegex_test pf (text_of pf (get_field input ''guestEmail''))
             then Inl ''Invalid email format''
             else
               (case (parseDate pf (get_field input ''checkInDate''),
                      parseDate pf (get_field input ''checkOutDate'')) of
                  (Some checkIn, Some checkOut) \<Rightarrow>
                    if checkOut \<le> checkIn
                    then Inl ''Check-out date must be after check-in date''
                    else Inr True
                | _ \<Rightarrow> Inl ''Invalid date format'')))"

definition booking_transform :: "platform \<Rightarrow> jsvalue \<Rightarrow> string + jsvalue" where
  "booking_transform pf input =
     (case cleanPhone (get_field input ''guestPhone'') of
        Inl m \<Rightarrow> Inl m
      | Inr phone \<Rightarrow>
          (case formatDate pf (get_field input ''checkInDate'') of
             Inl m \<Rightarrow> Inl m
           | Inr check_in \<Rightarrow>
               (case formatDate pf (get_field input ''checkOutDate'') of
                  Inl m \<Rightarrow> Inl m
                | Inr check_out \<Rightarrow>
                    Inr (JObj
                      [(''reservation_id'', get_field input ''reservationId''),
                       (''guest'', JObj [(''name'', get_field input ''guestName''),
                                         (''email'', get_field input ''guestEmail''),
                                         (''phone'', JStr phone)]),
                       (''stay'', JObj [(''check_in'', JStr check_in),
                                        (''check_out'', JStr check_out),
                                        (''room_type'', get_field input ''roomType''),
                                        (''guests'', get_field input ''numberOfGuests'')]),
                       (''payment'', JObj [(''total'', get_field input ''totalAmount''),
                                           (''currency'', get_field input ''currency'')]),
                       (''status'', get_field input ''status''),
                       (''notes'', get_field input ''specialRequests'')]))))"

definition BookingReservationTransformer :: "platform \<Rightarrow> Transformer" where
  "BookingReservationTransformer pf =
     \<lparr>t_name = ''BookingReservationTransformer'',
      t_validate = booking_validate pf, t_transform = booking_transform pf\<rparr>"

text \<open>\<open>initializeTransformers\<close> (transformers/index.ts) registers this one transformer.\<close>

definition initializeTransformers :: "platform \<Rightarrow> TransformerRegistry" where
  "initializeTransformers pf =
     register Map.empty ''BookingReservationTransformer'' (BookingReservationTransformer pf)"

section \<open>HTTP client (services/httpClient.ts)\<close>

text \<open>
  What the client hands to axios: the settings of the instance and the request. The
  network, with the retries of axios-retry, is a parameter: it maps a request to the
  response, or to the error axios rejects with, which carries a message and, when the
  upstream answered, the response.
\<close>

record outbound_request =
  or_baseURL :: string
  or_timeout :: nat
  or_retries :: nat
  or_headers :: "string \<rightharpoonup> string"
  or_method :: http_method
  or_url :: string
  or_data :: "jsvalue option"

datatype axios_outcome =
  AxiosResponse nat jsvalue
  | AxiosError string "(nat \<times> jsvalue) option"

type_synonym upstream = "outbound_request \<Rightarrow> axios_outcome"

record HttpClient =
  hc_integrationName :: string
  hc_integration :: IntegrationConfig
  hc_baseURL :: string
  hc_timeout :: nat
  hc_retries :: nat
  hc_headers :: "string \<rightharpoonup> string"

text \<open>\<open>n || fallback\<close> for an optional number.\<close>

definition num_or :: "nat option \<Rightarrow> nat \<Rightarrow> nat" where
  "num_or v fallback = (case v of None \<Rightarrow> fallback | Some n \<Rightarrow> if n = 0 then fallback else n)"

text \<open>
  \<open>createHttpClient(integration)\<close>, the constructor without options. It throws when the
  integration is undefined; for an inherited member its call of \<open>getAuthHeaders\<close>
  throws.
\<close>

definition createHttpClient :: "platform \<Rightarrow> IntegrationsConfig \<Rightarrow> string \<Rightarrow> string + HttpClient" where
  "createHttpClient pf integrations name =
     (case getIntegration integrations name of
        Undefined \<Rightarrow> Inl (''Integration '' @ quoted name @ '' not found'')
      | Inherited \<Rightarrow> Inl ''Cannot read properties of undefined (reading 'headers')''
      | Own integration \<Rightarrow>
          (case getAuthHeaders pf integrations name of
             Inl message \<Rightarrow> Inl message
           | Inr authHeaders \<Rightarrow>
               Inr \<lparr>hc_integrationName = name, hc_integration = integration,
                    hc_baseURL = ic_baseUrl integration,
                    hc_timeout = num_or (ic_timeout integration) 30000,
                    hc_retries = num_or (ic_retries integration) 3,
                    hc_headers = [''Content-Type'' \<mapsto> ''application/json'',
                                  ''User-Agent'' \<mapsto> ''API-Middleware/1.0'']
                                 ++ authHeaders\<rparr>))"

text \<open>
  \<open>callEndpoint\<close>: the result, or the error thrown or rejected with (its message and
  the upstream response if there is one), and the requests handed to axios. No request
  is made when the endpoint is undefined, or when the URL is null or the empty text.
\<close>

definition callEndpoint ::
    "platform \<Rightarrow> IntegrationsConfig \<Rightarrow> upstream \<Rightarrow> HttpClient \<Rightarrow> string \<Rightarrow> jsvalue
      \<Rightarrow> (string \<times> jsvalue) list
      \<Rightarrow> (string \<times> (nat \<times> jsvalue) option + nat \<times> jsvalue) \<times> outbound_request list" where
  "callEndpoint pf integrations net client endpointName data params =
     (case getEndpoint integrations (hc_integrationName client) endpointName of
        Inl message \<Rightarrow> (Inl (message, None), [])
      | Inr Undefined \<Rightarrow>
          (Inl (''Endpoint '' @ quoted endpointName @ '' not found in integration ''
                 @ quoted (hc_integrationName client), None), [])
      | Inr endpoint \<Rightarrow>
          (case buildUrl pf integrations (hc_integrationName client) endpointName params of
             Inl message \<Rightarrow> (Inl (message, None), [])
           | Inr None \<Rightarrow>
               (Inl (''Could not build URL for endpoint '' @ quoted endpointName, None), [])
           | Inr (Some url) \<Rightarrow>
               if url = []
               then (Inl (''Could not build URL for endpoint '' @ quoted endpointName, None), [])
               else
                 let method = (case endpoint of
                                 Own ep \<Rightarrow> (case ep_method ep of None \<Rightarrow> GET | Some m \<Rightarrow> m)
                               | _ \<Rightarrow> GET);
                     urlPath = replace_first (ic_baseUrl (hc_integration client)) [] url;
                     request =
                       \<lparr>or_baseURL = hc_baseURL client, or_timeout = hc_timeout client,
                        or_retries = hc_retries client, or_headers = hc_headers client,
                        or_method = method, or_url = urlPath,
                        or_data = (case method of
                                     GET \<Rightarrow> None
                                   | DELETE \<Rightarrow> None
                                   | _ \<Rightarrow> Some data)\<rparr>
                 in (case net request of
                       AxiosResponse st body \<Rightarrow> (Inr (st, body), [request])
                     | AxiosError message response \<Rightarrow> (Inl (message, response), [request]))))"

section \<open>Proxy controller (controllers/proxyController.ts)\<close>

text \<open>
  A request to the proxy: the route parameters, the parsed body, and the entries of
  \<open>req.query\<close> as \<open>Object.entries\<close> gives them; the value of an entry is a text, or an
  array or an object of the query parser.
\<close>

record proxy_request =
  pr_integration :: string
  pr_endpoint :: string
  pr_body :: jsvalue
  pr_query :: "(string \<times> jsvalue) list"

text \<open>The response of the outer \<open>catch\<close>.\<close>

definition proxy_error :: "string \<Rightarrow> (nat \<times> jsvalue) option \<Rightarrow> http_response" where
  "proxy_error message response =
     ((case response of None \<Rightarrow> 500 | Some (st, d) \<Rightarrow> if st = 0 then 500 else st),
      JObj [(''error'', JStr ''proxy_error''), (''message'', JStr message),
            (''details'', (case response of
                             None \<Rightarrow> JNull
                           | Some (st, d) \<Rightarrow> if truthy d then d else JNull))])"

definition transformation_error :: "string \<Rightarrow> http_response" where
  "transformation_error details =
     (400, JObj [(''error'', JStr ''transformation_error''),
                 (''message'', JStr ''Failed to transform request data''),
                 (''details'', JStr details)])"

text \<open>The last step of \<open>forward\<close>: create the client and call the endpoint.\<close>

definition dispatch ::
    "platform \<Rightarrow> IntegrationsConfig \<Rightarrow> upstream \<Rightarrow> proxy_request \<Rightarrow> jsvalue
      \<Rightarrow> http_response \<times> outbound_request list" where
  "dispatch pf integrations net req requestData =
     (case createHttpClient pf integrations (pr_integration req) of
        Inl message \<Rightarrow> (proxy_error message None, [])
      | Inr client \<Rightarrow>
          (case callEndpoint pf integrations net client (pr_endpoint req) requestData
                  (pr_query req) of
             (Inl (message, response), sent) \<Rightarrow> (proxy_error message response, sent)
           | (Inr (st, body), sent) \<Rightarrow> ((st, body), sent)))"

text \<open>
  \<open>ProxyController.forward\<close>: the response, and the requests that went out. Whatever
  is thrown outside the transformation is answered by the outer \<open>catch\<close>.
\<close>

definition forward ::
    "platform \<Rightarrow> IntegrationsConfig \<Rightarrow> TransformerRegistry \<Rightarrow> upstream \<Rightarrow> proxy_request
      \<Rightarrow> http_response \<times> outbound_request list" where
  "forward pf integrations transformers net req =
     (let integration = pr_integration req; endpoint = pr_endpoint req in
      if \<not> isEnabled integrations integration then (integration_not_found integration, [])
      else
        (case getEndpoint integrations integration endpoint of
           Inl message \<Rightarrow> (proxy_error message None, [])
         | Inr Undefined \<Rightarrow>
             ((404, JObj [(''error'', JStr ''endpoint_not_found''),
                 (''message'', JStr (''Endpoint '' @ quoted endpoint
                      @ '' not found in integration '' @ quoted integration))]), [])
         | Inr endpointConfig \<Rightarrow>
             let transformer = (case endpointConfig of
                                  Own ep \<Rightarrow> ep_transformer ep
                                | _ \<Rightarrow> None)
             in
             if truthy_text transformer \<and> truthy (pr_body req)
             then
               (case transform transformers
                       (case transformer of None \<Rightarrow> [] | Some t \<Rightarrow> t)
                       (pr_body req) of
                  Inl message \<Rightarrow> (transformation_error message, [])
                | Inr requestData \<Rightarrow> dispatch pf integrations net req requestData)
             else dispatch pf integrations net req (pr_body req)))"

text \<open>
  Examples: an upstream that answers every request with 201, and a reservation whose
  check-out date is before its check-in date.
\<close>

definition accepting_upstream :: upstream where
  "accepting_upstream = (\<lambda>request. AxiosResponse 201 (JObj [(''id'', JNum 1)]))"

definition backwards_reservation :: jsvalue where
  "backwards_reservation =
     JObj [(''reservationId'', JStr ''RES-123''), (''guestName'', JStr ''John Doe''),
           (''guestEmail'', JStr ''john@example.com''), (''checkInDate'', JNum 20),
           (''checkOutDate'', JNum 15), (''roomType'', JStr ''Deluxe''),
           (''numberOfGuests'', JNum 2), (''totalAmount'', JNum 500)]"

text \<open>
  Requests to the proxy: a guest synchronisation without a body, to an endpoint whose
  transformer is not registered; the reservation with its dates backwards; a guest
  synchronisation with an empty object as body; a reservation with a null body.
\<close>

definition bodyless_request :: proxy_request where
  "bodyless_request = \<lparr>pr_integration = ''pms_system'', pr_endpoint = ''syncGuest'',
                        pr_body = JUndefined, pr_query = []\<rparr>"

definition backwards_request :: proxy_request where
  "backwards_request = \<lparr>pr_integration = ''booking_engine'', pr_endpoint = ''createReservation'',
                         pr_body = backwards_reservation, pr_query = []\<rparr>"

definition empty_object_request :: proxy_request where
  "empty_object_request = \<lparr>pr_integration = ''pms_system'', pr_endpoint = ''syncGuest'',
                            pr_body = JObj [], pr_query = []\<rparr>"

definition null_request :: proxy_request where
  "null_request = \<lparr>pr_integration = ''booking_engine'', pr_endpoint = ''createReservation'',
                    pr_body = JNull, pr_query = []\<rparr>"

text \<open>
  An update of reservation 42 with a null body, under a process environment that sets
  the API key of the booking engine.
\<close>

definition keyed_penv :: "string \<rightharpoonup> string" where
  "keyed_penv = [''BOOKING_ENGINE_API_KEY'' \<mapsto> ''k1'']"

definition update_request :: proxy_request where
  "update_request = \<lparr>pr_integration = ''booking_engine'', pr_endpoint = ''updateReservation'',
                      pr_body = JNull, pr_query = [(''id'', JStr ''42'')]\<rparr>"

text \<open>
  A configuration whose one integration has the empty text as base URL and as the path
  of its endpoint, and a request to that endpoint.
\<close>

definition blank_endpoint :: IntegrationEndpoint where
  "blank_endpoint = \<lparr>ep_path = [], ep_method = Some POST, ep_transformer = Some ''T''\<rparr>"

definition blank_config :: IntegrationConfig where
  "blank_config =
     \<lparr>ic_name = ''Blank'', ic_enabled = True, ic_baseUrl = [],
      ic_auth = \<lparr>auth_type = auth_none, auth_credentials = None, auth_headers = None\<rparr>,
      ic_endpoints = [''e'' \<mapsto> blank_endpoint],
      ic_timeout = None, ic_retries = None, ic_webhooks = None\<rparr>"

definition blank_integrations :: IntegrationsConfig where
  "blank_integrations = [''blank'' \<mapsto> blank_config]"

definition blank_request :: proxy_request where
  "blank_request = \<lparr>pr_integration = ''blank'', pr_endpoint = ''e'',
                     pr_body = JNull, pr_query = []\<rparr>"

section \<open>Properties of the token service\<close>

subsection \<open>The text of an instant\<close>

lemma div_step:
  fixes x k :: int
  assumes "0 < k"
  shows "x div k \<le> (x + 1) div k" "(x + 1) div k \<le> x div k + 1"
proof -
  show "x div k \<le> (x + 1) div k"
    by (rule zdiv_mono1) (use assms in simp_all)
  have "(x + 1) div k \<le> (x + k) div k"
    by (rule zdiv_mono1) (use assms in simp_all)
  also have "\<dots> = x div k + 1"
    using assms by (simp add: div_add_self2)
  finally show "(x + 1) div k \<le> x div k + 1" .
qed

lemma year_length_bounds:
  fixes a a' b b' c c' y :: int
  assumes "a \<le> a'" "a' \<le> a + 1" "b \<le> b'" "b' \<le> b + 1" "c \<le> c'" "c' \<le> c + 1"
  shows "365 * (y - 1970) + a - b + c < 365 * (y + 1 - 1970) + a' - b' + c'"
    and "365 * (y + 1 - 1970) + a' - b' + c' \<le> 365 * (y - 1970) + a - b + c + 367"
  using assms by (simp_all add: algebra_simps)

lemma DayFromYear_step:
  "DayFromYear y < DayFromYear (y + 1)" "DayFromYear (y + 1) \<le> DayFromYear y + 367"
proof -
  have e: "y + 1 - 1969 = y - 1969 + 1" "y + 1 - 1901 = y - 1901 + 1" "y + 1 - 1601 = y - 1601 + 1"
    by simp_all
  note b = year_length_bounds [OF div_step [of 4 "y - 1969"] div_step [of 100 "y - 1901"]
      div_step [of 400 "y - 1601"], of y]
  show "DayFromYear y < DayFromYear (y + 1)"
    unfolding DayFromYear_def e using b(1) by simp
  show "DayFromYear (y + 1) \<le> DayFromYear y + 367"
    unfolding DayFromYear_def e using b(2) by simp
qed

lemma DayFromYear_mono: "y \<le> y' \<Longrightarrow> DayFromYear y \<le> DayFromYear y'"
proof (induction y' rule: int_ge_induct)
  case base
  then show ?case by simp
next
  case (step i)
  then show ?case using DayFromYear_step(1) [of i] by simp
qed

lemma DayFromYear_strict: "y < y' \<Longrightarrow> DayFromYear y < DayFromYear y'"
  using DayFromYear_mono [of "y + 1" y'] DayFromYear_step(1) [of y] by simp

lemma year_down_le: "DayFromYear (year_down day y) \<le> day"
  by (induction day y rule: year_down.induct) (subst year_down.simps, simp)

lemma year_down_gt: "day < DayFromYear (y + 1) \<Longrightarrow> day < DayFromYear (year_down day y + 1)"
proof (induction day y rule: year_down.induct)
  case (1 day y)
  show ?case
  proof (cases "DayFromYear y \<le> day")
    case True
    then show ?thesis using 1(2) by (subst year_down.simps) simp
  next
    case False
    then have "day < DayFromYear (y - 1 + 1)" by simp
    from 1(1) [OF False this] False show ?thesis by (subst year_down.simps) simp
  qed
qed

lemma year_start_bound:
  "day < DayFromYear ((if day < 0 then 1970 else 1971 + day div 365) + 1)"
proof (cases "day < 0")
  case True
  then show ?thesis by (simp add: DayFromYear_def)
next
  case False
  define q where "q = day div 365"
  define y where "y = 1972 + q"
  define leaps where "leaps = (y - 1969) div 4 - (y - 1901) div 100 + (y - 1601) div 400"
  have q: "0 \<le> q" "day \<le> 365 * q + 364"
    using False unfolding q_def by arith+
  have "1970 \<le> y" using q(1) by (simp add: y_def)
  then have "- 1 \<le> leaps" unfolding leaps_def by arith
  moreover have "DayFromYear y = 365 * (y - 1970) + leaps"
    unfolding leaps_def DayFromYear_def by (simp only: diff_conv_add_uminus add.assoc)
  ultimately have "day < DayFromYear y" using q(2) by (simp add: y_def)
  then show ?thesis using False by (simp add: y_def q_def)
qed

lemma year_bracket:
  "DayFromYear (YearFromTime t) \<le> Day t" "Day t < DayFromYear (YearFromTime t + 1)"
  unfolding YearFromTime_def
  using year_down_le year_down_gt [OF year_start_bound] by blast+

lemma year_mono: "Day a \<le> Day b \<Longrightarrow> YearFromTime a \<le> YearFromTime b"
proof (rule ccontr)
  assume d: "Day a \<le> Day b" and "\<not> YearFromTime a \<le> YearFromTime b"
  then have "YearFromTime b + 1 \<le> YearFromTime a" by simp
  from DayFromYear_mono [OF this] year_bracket(2) [of b] year_bracket(1) [of a] d
  show False by simp
qed

lemma year_range:
  assumes "- 62167219200000 \<le> t" "t < 253402300800000"
  shows "0 \<le> YearFromTime t" "YearFromTime t \<le> 9999"
proof -
  have d: "- 719528 \<le> Day t" "Day t < 2932897"
    using assms unfolding Day_def by arith+
  have z: "DayFromYear 0 = - 719528" "DayFromYear 10000 = 2932897"
    by (simp_all add: DayFromYear_def)
  show "0 \<le> YearFromTime t"
  proof (rule ccontr)
    assume "\<not> 0 \<le> YearFromTime t"
    then have "YearFromTime t + 1 \<le> 0" by simp
    from DayFromYear_mono [OF this] year_bracket(2) [of t] d(1) z(1) show False by simp
  qed
  show "YearFromTime t \<le> 9999"
  proof (rule ccontr)
    assume "\<not> YearFromTime t \<le> 9999"
    then have "10000 \<le> YearFromTime t" by simp
    from DayFromYear_mono [OF this] year_bracket(1) [of t] d(2) z(2) show False by simp
  qed
qed

lemma day_within_year: "0 \<le> DayWithinYear t" "DayWithinYear t \<le> 366"
  using year_bracket [of t] DayFromYear_step(2) [of "YearFromTime t"]
  by (simp_all add: DayWithinYear_def)

lemma leap_flag: "InLeapYear t = 0 \<or> InLeapYear t = 1"
  by (simp add: InLeapYear_def)

lemma month_range: "0 \<le> month_of l d" "month_of l d \<le> 11"
  by (simp_all add: month_of_def)

lemma month_mono: "p \<le> q \<Longrightarrow> month_of l p \<le> month_of l q"
  by (simp add: month_of_def)

lemma date_same_month:
  "month_of l p = month_of l q \<Longrightarrow> date_of l q - date_of l p = q - p"
  by (simp add: date_of_def Let_def)

lemma date_range:
  assumes "0 \<le> d" "d \<le> 366" "l = 0 \<or> l = 1"
  shows "0 \<le> date_of l d" "date_of l d < 100"
  using assms by (auto simp: date_of_def month_of_def Let_def split: if_splits)

lemma digit_code:
  assumes "0 \<le> d" "d \<le> 9"
  shows "(of_char (digit_char d) :: nat) = nat (48 + d)"
proof -
  from assms have "d = 0 \<or> d = 1 \<or> d = 2 \<or> d = 3 \<or> d = 4 \<or> d = 5 \<or> d = 6 \<or> d = 7 \<or> d = 8 \<or> d = 9"
    by arith
  then show ?thesis by (auto simp: digit_char_def)
qed

lemma digit_less:
  assumes "0 \<le> d" "d \<le> 9" "0 \<le> e" "e \<le> 9"
  shows "text_less (digit_char d # r) (digit_char e # s) = (d < e \<or> d = e \<and> text_less r s)"
proof (cases "d = e")
  case True
  then show ?thesis by simp
next
  case False
  then have "(of_char (digit_char d) :: nat) \<noteq> of_char (digit_char e)"
    using assms by (simp add: digit_code)
  then have "digit_char d \<noteq> digit_char e" by auto
  then show ?thesis using assms False by (simp add: digit_code)
qed

lemma div_mod_less:
  fixes x y k :: int
  assumes "0 < k"
  shows "(x < y) = (x div k < y div k \<or> x div k = y div k \<and> x mod k < y mod k)"
proof -
  have x: "x = k * (x div k) + x mod k" and y: "y = k * (y div k) + y mod k" by simp_all
  have mx: "0 \<le> x mod k" "x mod k < k" and my: "0 \<le> y mod k" "y mod k < k"
    using assms by simp_all
  show ?thesis
  proof (cases "x div k < y div k")
    case True
    then have "x div k + 1 \<le> y div k" by simp
    then have "k * (x div k + 1) \<le> k * (y div k)" using assms by simp
    then have "k * (x div k) + k \<le> k * (y div k)" by (simp add: algebra_simps)
    then have "k * (x div k) + x mod k < k * (y div k) + y mod k" using mx my by linarith
    then have "x < y" using x y by simp
    then show ?thesis using True by simp
  next
    case False
    show ?thesis
    proof (cases "x div k = y div k")
      case True
      then have "(x < y) = (x mod k < y mod k)"
        by (metis add_less_cancel_left x y)
      then show ?thesis using True by simp
    next
      case ne: False
      then have "y div k < x div k" using False by simp
      then have "y div k + 1 \<le> x div k" by simp
      then have "k * (y div k + 1) \<le> k * (x div k)" using assms by simp
      then have "k * (y div k) + k \<le> k * (x div k)" by (simp add: algebra_simps)
      then have "k * (y div k) + y mod k < k * (x div k) + x mod k" using mx my by linarith
      then have "y < x" using x y by simp
      then show ?thesis using False ne by simp
    qed
  qed
qed

lemma div10_bound:
  fixes x n :: int
  assumes "0 \<le> x" "x < 10 * n"
  shows "0 \<le> x div 10" "x div 10 < n"
  using assms by arith+

lemma decimal_less:
  "0 \<le> x \<Longrightarrow> x < 10 ^ w \<Longrightarrow> 0 \<le> y \<Longrightarrow> y < 10 ^ w \<Longrightarrow>
   text_less (decimal w x @ r) (decimal w y @ s) = (x < y \<or> x = y \<and> text_less r s)"
proof (induction w arbitrary: x y r s)
  case 0
  then show ?case by simp
next
  case (Suc w)
  have dx: "0 \<le> x div 10" "x div 10 < 10 ^ w" and dy: "0 \<le> y div 10" "y div 10 < 10 ^ w"
    using Suc.prems div10_bound [of x "10 ^ w"] div10_bound [of y "10 ^ w"] by simp_all
  have mx: "0 \<le> x mod 10" "x mod 10 \<le> 9" and my: "0 \<le> y mod 10" "y mod 10 \<le> 9"
    by simp_all
  have e: "(x = y) = (x div 10 = y div 10 \<and> x mod 10 = y mod 10)"
    by (metis mult_div_mod_eq)
  have "text_less (decimal (Suc w) x @ r) (decimal (Suc w) y @ s)
      = text_less (decimal w (x div 10) @ (digit_char (x mod 10) # r))
                  (decimal w (y div 10) @ (digit_char (y mod 10) # s))"
    by simp
  also have "\<dots> = (x div 10 < y div 10 \<or> x div 10 = y div 10
                \<and> text_less (digit_char (x mod 10) # r) (digit_char (y mod 10) # s))"
    by (rule Suc.IH [OF dx dy])
  also have "\<dots> = (x div 10 < y div 10 \<or> x div 10 = y div 10
                \<and> (x mod 10 < y mod 10 \<or> x mod 10 = y mod 10 \<and> text_less r s))"
    by (simp only: digit_less [OF mx my])
  also have "\<dots> = (x < y \<or> x = y \<and> text_less r s)"
    using div_mod_less [of 10 x y] e by auto
  finally show ?case .
qed

lemma lex_less_irrefl: "\<not> lex_less xs xs"
  by (induction xs) auto

lemma lex_less_asym: "lex_less xs ys \<Longrightarrow> \<not> lex_less ys xs"
  by (induction xs ys rule: lex_less.induct) auto

lemma same_day_fields:
  assumes "Day a = Day b"
  shows "YearFromTime a = YearFromTime b" "MonthFromTime a = MonthFromTime b"
    "DateFromTime a = DateFromTime b"
  using assms
  by (simp_all add: YearFromTime_def MonthFromTime_def DateFromTime_def InLeapYear_def
      DayWithinYear_def)

lemma time_fields:
  "a div 3600000 div 24 = Day a" "a div 60000 div 60 = a div 3600000"
  "a div 1000 div 60 = a div 60000"
proof -
  show "a div 3600000 div 24 = Day a"
    unfolding Day_def using zdiv_zmult2_eq [of 24 a 3600000] by simp
  show "a div 60000 div 60 = a div 3600000"
    using zdiv_zmult2_eq [of 60 a 60000] by simp
  show "a div 1000 div 60 = a div 60000"
    using zdiv_zmult2_eq [of 60 a 1000] by simp
qed

lemma fields_less:
  assumes "a < b"
  shows "lex_less (iso_fields a) (iso_fields b)"
proof -
  have d: "Day a \<le> Day b"
    unfolding Day_def by (rule zdiv_mono1) (use assms in simp_all)
  show ?thesis
  proof (cases "Day a < Day b")
    case True
    have y: "YearFromTime a \<le> YearFromTime b" by (rule year_mono [OF d])
    show ?thesis
    proof (cases "YearFromTime a < YearFromTime b")
      case True
      then show ?thesis by (simp add: iso_fields_def)
    next
      case False
      then have ye: "YearFromTime a = YearFromTime b" using y by simp
      then have le: "InLeapYear a = InLeapYear b" by (simp add: InLeapYear_def)
      have w: "DayWithinYear a < DayWithinYear b"
        using True ye by (simp add: DayWithinYear_def)
      have m: "MonthFromTime a \<le> MonthFromTime b"
        unfolding MonthFromTime_def le using w by (intro month_mono) simp
      show ?thesis
      proof (cases "MonthFromTime a < MonthFromTime b")
        case True
        then show ?thesis using ye by (simp add: iso_fields_def)
      next
        case False
        then have me: "MonthFromTime a = MonthFromTime b" using m by simp
        then have "month_of (InLeapYear b) (DayWithinYear a)
                   = month_of (InLeapYear b) (DayWithinYear b)"
          by (simp add: MonthFromTime_def le)
        from date_same_month [OF this] w have "DateFromTime a < DateFromTime b"
          by (simp add: DateFromTime_def le)
        then show ?thesis using ye me by (simp add: iso_fields_def)
      qed
    qed
  next
    case False
    then have de: "Day a = Day b" using d by simp
    note s = same_day_fields [OF de]
    have h: "a div 3600000 div 24 = b div 3600000 div 24"
      using de by (simp add: time_fields)
    have 1: "(a < b) = (a div 1000 < b div 1000
                \<or> a div 1000 = b div 1000 \<and> msFromTime a < msFromTime b)"
      unfolding msFromTime_def by (rule div_mod_less) simp
    have 2: "(a div 1000 < b div 1000) = (a div 60000 < b div 60000
                \<or> a div 60000 = b div 60000 \<and> SecFromTime a < SecFromTime b)"
      unfolding SecFromTime_def using div_mod_less [of 60 "a div 1000" "b div 1000"]
      by (simp add: time_fields)
    have 3: "(a div 60000 < b div 60000) = (a div 3600000 < b div 3600000
                \<or> a div 3600000 = b div 3600000 \<and> MinFromTime a < MinFromTime b)"
      unfolding MinFromTime_def using div_mod_less [of 60 "a div 60000" "b div 60000"]
      by (simp add: time_fields)
    have 4: "(a div 3600000 < b div 3600000) = (HourFromTime a < HourFromTime b)"
      unfolding HourFromTime_def using div_mod_less [of 24 "a div 3600000" "b div 3600000"] h
      by simp
    have 5: "(a div 3600000 = b div 3600000) = (HourFromTime a = HourFromTime b)"
      unfolding HourFromTime_def using h by (metis mult_div_mod_eq)
    have 6: "a div 60000 = b div 60000
              \<longleftrightarrow> a div 3600000 = b div 3600000 \<and> MinFromTime a = MinFromTime b"
      unfolding MinFromTime_def by (metis mult_div_mod_eq time_fields(2))
    have 7: "a div 1000 = b div 1000
              \<longleftrightarrow> a div 60000 = b div 60000 \<and> SecFromTime a = SecFromTime b"
      unfolding SecFromTime_def by (metis mult_div_mod_eq time_fields(3))
    from assms 1 2 3 4 5 6 7 show ?thesis
      by (auto simp: iso_fields_def s)
  qed
qed

lemma fields_order: "lex_less (iso_fields a) (iso_fields b) = (a < b)"
proof
  assume l: "lex_less (iso_fields a) (iso_fields b)"
  show "a < b"
  proof (rule ccontr)
    assume "\<not> a < b"
    then have "a = b \<or> b < a" by auto
    then show False
    proof
      assume "a = b"
      with l lex_less_irrefl show False by simp
    next
      assume "b < a"
      from fields_less [OF this] lex_less_asym [OF l] show False by simp
    qed
  qed
next
  assume "a < b"
  then show "lex_less (iso_fields a) (iso_fields b)" by (rule fields_less)
qed

lemma field_ranges:
  "0 \<le> MonthFromTime t + 1" "MonthFromTime t + 1 < 10 ^ 2"
  "0 \<le> DateFromTime t" "DateFromTime t < 10 ^ 2"
  "0 \<le> HourFromTime t" "HourFromTime t < 10 ^ 2"
  "0 \<le> MinFromTime t" "MinFromTime t < 10 ^ 2"
  "0 \<le> SecFromTime t" "SecFromTime t < 10 ^ 2"
  "0 \<le> msFromTime t" "msFromTime t < 10 ^ 3"
proof -
  note m = month_range [of "InLeapYear t" "DayWithinYear t"]
  show "0 \<le> MonthFromTime t + 1" "MonthFromTime t + 1 < 10 ^ 2"
    using m by (simp_all add: MonthFromTime_def)
  show "0 \<le> DateFromTime t" "DateFromTime t < 10 ^ 2"
    using date_range [OF day_within_year leap_flag, of t] by (simp_all add: DateFromTime_def)
  have "HourFromTime t < 24" "MinFromTime t < 60" "SecFromTime t < 60"
    by (simp_all add: HourFromTime_def MinFromTime_def SecFromTime_def)
  then show "HourFromTime t < 10 ^ 2" "MinFromTime t < 10 ^ 2" "SecFromTime t < 10 ^ 2"
    by simp_all
  show "0 \<le> HourFromTime t" "0 \<le> MinFromTime t" "0 \<le> SecFromTime t" "0 \<le> msFromTime t"
    "msFromTime t < 10 ^ 3"
    by (simp_all add: HourFromTime_def MinFromTime_def SecFromTime_def msFromTime_def)
qed

lemma iso_text:
  assumes "0 \<le> YearFromTime t" "YearFromTime t \<le> 9999"
  shows "toISOString t =
      decimal 4 (YearFromTime t) @ CHR ''-'' # decimal 2 (MonthFromTime t + 1) @ CHR ''-'' #
      decimal 2 (DateFromTime t) @ CHR ''T'' # decimal 2 (HourFromTime t) @ CHR '':'' #
      decimal 2 (MinFromTime t) @ CHR '':'' # decimal 2 (SecFromTime t) @ CHR ''.'' #
      decimal 3 (msFromTime t) @ ''Z''"
  using assms by (simp add: toISOString_def Let_def)

lemma iso_less_fields:
  assumes a: "0 \<le> YearFromTime a" "YearFromTime a \<le> 9999"
    and b: "0 \<le> YearFromTime b" "YearFromTime b \<le> 9999"
  shows "text_less (toISOString a) (toISOString b) = lex_less (iso_fields a) (iso_fields b)"
proof -
  have ya: "YearFromTime a < 10 ^ 4" and yb: "YearFromTime b < 10 ^ 4"
    using a b by simp_all
  note ra = field_ranges [of a] and rb = field_ranges [of b]
  have z: "text_less ''Z'' ''Z'' = False" by simp
  show ?thesis
    unfolding iso_text [OF a] iso_text [OF b] iso_fields_def
    by (simp only: decimal_less [OF a(1) ya b(1) yb]
        decimal_less [OF ra(1,2) rb(1,2)] decimal_less [OF ra(3,4) rb(3,4)]
        decimal_less [OF ra(5,6) rb(5,6)] decimal_less [OF ra(7,8) rb(7,8)]
        decimal_less [OF ra(9,10) rb(9,10)] decimal_less [OF ra(11,12) rb(11,12)]
        text_less.simps lex_less.simps if_True z simp_thms)
qed

text \<open>
  For two instants of the years 0000 to 9999, the texts compare as the instants do.
\<close>

lemma iso_order:
  assumes "four_digit_year a" "four_digit_year b"
  shows "text_less (toISOString a) (toISOString b) = (a < b)"
proof -
  from assms have a: "- 62167219200000 \<le> a" "a < 253402300800000"
    and b: "- 62167219200000 \<le> b" "b < 253402300800000"
    by (simp_all add: four_digit_year_def)
  show ?thesis
    using iso_less_fields [OF year_range [OF a] year_range [OF b]]
    by (simp add: fields_order)
qed

subsection \<open>The sweep\<close>

lemma length_filter_split:
  "length (filter P xs) + length (filter (\<lambda>x. \<not> P x) xs) = length xs"
  by (induction xs) auto

text \<open>
  What holds of the sweep: it deletes the session rows whose stored text sorts before
  the text of the current instant, whatever their revoked flag; it returns the number
  of rows it removed; the other rows stay, unchanged and in their order, and nothing
  else in the database changes.
\<close>

lemma cleanupExpiredSessions_texts:
  "sessions (snd (cleanupExpiredSessions db now))
     = filter (\<lambda>s. \<not> text_less (toISOString (s_expires_at s)) (toISOString now)) (sessions db)
   \<and> fst (cleanupExpiredSessions db now)
     = length (filter (\<lambda>s. text_less (toISOString (s_expires_at s)) (toISOString now))
         (sessions db))
   \<and> fst (cleanupExpiredSessions db now)
     = length (sessions db) - length (sessions (snd (cleanupExpiredSessions db now)))
   \<and> clients (snd (cleanupExpiredSessions db now)) = clients db
   \<and> sessions_seq (snd (cleanupExpiredSessions db now)) = sessions_seq db"
proof -
  let ?P = "\<lambda>s. text_less (toISOString (s_expires_at s)) (toISOString now)"
  have cnt: "length (filter ?P (sessions db))
      = length (sessions db) - length (filter (\<lambda>s. \<not> ?P s) (sessions db))"
    using length_filter_split [of ?P "sessions db"] by arith
  show ?thesis
    unfolding cleanupExpiredSessions_def using cnt by simp
qed

text \<open>
  Where the texts of the stored expiries compare with the text of the current instant
  as the instants do, the rows deleted are exactly those whose expiry is in the past.
\<close>

lemma cleanupExpiredSessions_ordered:
  assumes "\<forall>s\<in>set (sessions db).
             text_less (toISOString (s_expires_at s)) (toISOString now) = (s_expires_at s < now)"
  shows "sessions (snd (cleanupExpiredSessions db now))
           = filter (\<lambda>s. \<not> s_expires_at s < now) (sessions db)
       \<and> fst (cleanupExpiredSessions db now)
           = length (filter (\<lambda>s. s_expires_at s < now) (sessions db))"
proof -
  have "filter (\<lambda>s. text_less (toISOString (s_expires_at s)) (toISOString now)) (sessions db)
        = filter (\<lambda>s. s_expires_at s < now) (sessions db)"
    using assms by (intro filter_cong) simp_all
  moreover have "filter (\<lambda>s. \<not> text_less (toISOString (s_expires_at s)) (toISOString now))
           (sessions db)
        = filter (\<lambda>s. \<not> s_expires_at s < now) (sessions db)"
    using assms by (intro filter_cong) simp_all
  ultimately show ?thesis by (simp add: cleanupExpiredSessions_def)
qed

text \<open>
  With the current instant and every stored expiry in the years 0000 to 9999, the sweep
  deletes exactly the session rows whose access expiry is earlier than the current
  instant, whatever their revoked flag; it returns the number of rows it removed; the
  rows whose expiry has not passed stay, unchanged and in their order.
\<close>

lemma cleanupExpiredSessions_four_digit_years:
  assumes "four_digit_year now" "\<forall>s\<in>set (sessions db). four_digit_year (s_expires_at s)"
  shows "sessions (snd (cleanupExpiredSessions db now))
           = filter (\<lambda>s. \<not> s_expires_at s < now) (sessions db)
       \<and> fst (cleanupExpiredSessions db now)
           = length (filter (\<lambda>s. s_expires_at s < now) (sessions db))
       \<and> set (sessions db) - set (sessions (snd (cleanupExpiredSessions db now)))
           = {s \<in> set (sessions db). s_expires_at s < now}"
proof -
  have o: "\<forall>s\<in>set (sessions db).
             text_less (toISOString (s_expires_at s)) (toISOString now) = (s_expires_at s < now)"
    using assms by (simp add: iso_order)
  from cleanupExpiredSessions_ordered [OF o] show ?thesis by auto
qed

lemma far_db_eq: "far_db = \<lparr>clients = [acme, dormant],
   sessions = [\<lparr>s_id = 1, s_client_id = 1, s_access_token = issued_token,
       s_refresh_token = Opaque ''r1'', s_token_type = ''Bearer'',
       s_expires_at = far_expiry, s_refresh_expires_at = far_expiry, s_is_revoked = 0\<rparr>],
   sessions_seq = 1\<rparr>"
  by (simp add: far_db_def saveSession_def example_db_def acme_def Let_def)

lemma far_expiry_text: "toISOString far_expiry = ''+010000-01-01T00:00:00.000Z''"
  unfolding far_expiry_def by code_simp

lemma in_2026_text: "toISOString in_2026 = ''2026-01-01T00:00:00.000Z''"
  unfolding in_2026_def by code_simp

text \<open>
  Claim C7, at a row whose expiry is in the year 10000. The row's expiry instant is
  later than the current instant, so the session has not expired; its stored text
  begins with a plus sign, which sorts before the digits of the current instant's
  text, and the sweep deletes the row and counts it.
\<close>

theorem C7_sweep_deletes_unexpired_row:
  "map s_expires_at (sessions far_db) = [far_expiry]
   \<and> in_2026 < far_expiry
   \<and> toISOString far_expiry = ''+010000-01-01T00:00:00.000Z''
   \<and> toISOString in_2026 = ''2026-01-01T00:00:00.000Z''
   \<and> cleanupExpiredSessions far_db in_2026 = (1, far_db\<lparr>sessions := []\<rparr>)"
proof -
  have 1: "map s_expires_at (sessions far_db) = [far_expiry]"
    by (simp add: far_db_eq)
  have 2: "in_2026 < far_expiry"
    by (simp add: in_2026_def far_expiry_def)
  have 3: "cleanupExpiredSessions far_db in_2026 = (1, far_db\<lparr>sessions := []\<rparr>)"
    by (simp add: cleanupExpiredSessions_def far_db_eq far_expiry_text in_2026_text)
  from 1 2 far_expiry_text in_2026_text 3 show ?thesis by (intro conjI)
qed

lemma find_None_iff2: "(find P xs = None) = (\<forall>x\<in>set xs. \<not> P x)"
  by (induction xs) auto

lemma find_SomeD: "find P xs = Some x \<Longrightarrow> x \<in> set xs \<and> P x"
  by (induction xs) (auto split: if_splits)

lemma distinct_map_eq: "distinct (map f xs) \<Longrightarrow> x \<in> set xs \<Longrightarrow> y \<in> set xs \<Longrightarrow> f x = f y \<Longrightarrow> x = y"
  by (meson distinct_map inj_on_def)

lemma refresh_no_live: "no_live_row rt db \<Longrightarrow> refreshAccessToken env db now uniq rnd rt = (Inr None, db)"
  by (simp add: no_live_row_def refreshAccessToken_def)

lemma sessions_revokeSession:
  "sessions (revokeSession db i) = map (\<lambda>s. if s_id s = i then s\<lparr>s_is_revoked := 1\<rparr> else s) (sessions db)"
  by (simp add: revokeSession_def)

lemma map_rt_revoke [simp]: "map s_refresh_token (sessions (revokeSession db i)) = map s_refresh_token (sessions db)"
  by (simp add: revokeSession_def comp_def if_distrib cong: if_cong)

lemma map_at_revoke [simp]: "map s_access_token (sessions (revokeSession db i)) = map s_access_token (sessions db)"
  by (simp add: revokeSession_def comp_def if_distrib cong: if_cong)

lemma map_id_revoke [simp]: "map s_id (sessions (revokeSession db i)) = map s_id (sessions db)"
  by (simp add: revokeSession_def comp_def if_distrib cong: if_cong)

lemma revoke_kills:
  assumes "distinct (map s_refresh_token (sessions db))" "x \<in> set (sessions db)" "s_refresh_token x = rt"
  shows "no_live_row rt (revokeSession db (s_id x))"
proof -
  have "\<And>y. y \<in> set (sessions db) \<Longrightarrow> s_refresh_token y = rt \<Longrightarrow> y = x"
    using assms distinct_map_eq by metis
  then show ?thesis
    by (auto simp: no_live_row_def find_None_iff2 sessions_revokeSession)
qed

lemma saveSession_no_live:
  assumes "no_live_row rt db" "saveSession db client at r ea rea = Inr (row, db')" "rt \<in> set (map s_refresh_token (sessions db)) \<or> r \<noteq> rt"
  shows "no_live_row rt db'"
  using assms by (auto simp: no_live_row_def find_None_iff2 saveSession_def Let_def split: if_splits)

lemma no_live_revoke: "no_live_row rt db \<Longrightarrow> no_live_row rt (revokeSession db i)"
  by (auto simp: no_live_row_def find_None_iff2 sessions_revokeSession)

lemma no_live_revokeAll: "no_live_row rt db \<Longrightarrow> no_live_row rt (revokeAllClientSessions db c)"
  by (auto simp: no_live_row_def find_None_iff2 revokeAllClientSessions_def)

lemma no_live_cleanup: "no_live_row rt db \<Longrightarrow> no_live_row rt (snd (cleanupExpiredSessions db now))"
  by (auto simp: no_live_row_def find_None_iff2 cleanupExpiredSessions_def)

lemma no_live_create:
  assumes "no_live_row rt db" "generateRefreshToken rnd \<noteq> rt"
  shows "no_live_row rt (snd (createTokenResponse env db now uniq rnd cid sec))"
proof (cases "authenticateClient env db cid sec")
  case (Inl e)
  then show ?thesis using assms by (simp add: createTokenResponse_def)
next
  case (Inr found)
  show ?thesis
  proof (cases found)
    case None
    then show ?thesis using Inr assms by (simp add: createTokenResponse_def)
  next
    case (Some client)
    let ?g = "generateTokens env now uniq rnd (cl_client_id client) 3600"
    show ?thesis
    proof (cases "saveSession db client (accessToken ?g) (refreshToken ?g) (expiresAt ?g) (refreshExpiresAt ?g)")
      case (Inl e)
      then show ?thesis using Some Inr assms by (simp add: createTokenResponse_def Let_def)
    next
      case r: (Inr p)
      obtain row db' where p: "p = (row, db')" by (cases p)
      have "refreshToken ?g \<noteq> rt" using assms(2) by (simp add: generateTokens_def)
      then have "no_live_row rt db'"
        using saveSession_no_live [OF assms(1)] r p by blast
      then show ?thesis using Some Inr r p by (simp add: createTokenResponse_def Let_def)
    qed
  qed
qed

lemma refresh_cases:
  "refreshAccessToken env db now uniq rnd rt = (Inr None, db)
   \<or> (\<exists>session client.
        find (\<lambda>s. s_refresh_token s = rt \<and> s_is_revoked s = 0) (sessions db) = Some session
      \<and> \<not> s_refresh_expires_at session < now
      \<and> find (\<lambda>c. cl_id c = s_client_id session) (clients db) = Some client
      \<and> cl_is_active client = 1
      \<and> (let db1 = revokeSession db (s_id session);
              g = generateTokens env now uniq rnd (cl_client_id client) 3600 in
          case saveSession db1 client (accessToken g) (refreshToken g) (expiresAt g) (refreshExpiresAt g) of
            Inl e \<Rightarrow> refreshAccessToken env db now uniq rnd rt = (Inl e, db1)
          | Inr (row, db2) \<Rightarrow> refreshAccessToken env db now uniq rnd rt =
              (Inr (Some \<lparr>access_token = accessToken g, refresh_token = refreshToken g,
                          token_type = ''Bearer'', expires_in = 3600\<rparr>), db2)))"
  by (auto simp: refreshAccessToken_def Let_def split: option.splits sum.splits)

lemma no_live_refresh:
  assumes "no_live_row rt db" "generateRefreshToken rnd \<noteq> rt"
  shows "no_live_row rt (snd (refreshAccessToken env db now uniq rnd t))"
  using refresh_cases [of env db now uniq rnd t]
proof (elim disjE exE conjE)
  assume "refreshAccessToken env db now uniq rnd t = (Inr None, db)"
  then show ?thesis using assms by simp
next
  fix session :: OAuthSession and client :: OAuthClient
  let ?db1 = "revokeSession db (s_id session)"
  let ?g = "generateTokens env now uniq rnd (cl_client_id client) 3600"
  assume r: "let db1 = revokeSession db (s_id session);
              g = generateTokens env now uniq rnd (cl_client_id client) 3600 in
          case saveSession db1 client (accessToken g) (refreshToken g) (expiresAt g) (refreshExpiresAt g) of
            Inl e \<Rightarrow> refreshAccessToken env db now uniq rnd t = (Inl e, db1)
          | Inr (row, db2) \<Rightarrow> refreshAccessToken env db now uniq rnd t =
              (Inr (Some \<lparr>access_token = accessToken g, refresh_token = refreshToken g,
                          token_type = ''Bearer'', expires_in = 3600\<rparr>), db2)"
  have live1: "no_live_row rt ?db1" using assms(1) by (rule no_live_revoke)
  have ne: "refreshToken ?g \<noteq> rt" using assms(2) by (simp add: generateTokens_def)
  show ?thesis
  proof (cases "saveSession ?db1 client (accessToken ?g) (refreshToken ?g) (expiresAt ?g) (refreshExpiresAt ?g)")
    case (Inl e)
    then show ?thesis using r live1 by (simp add: Let_def)
  next
    case (Inr p)
    obtain row db2 where p: "p = (row, db2)" by (cases p)
    have "no_live_row rt db2" using saveSession_no_live [OF live1] Inr p ne by blast
    then show ?thesis using r Inr p by (simp add: Let_def)
  qed
qed

lemma no_live_perform:
  "no_live_row rt db \<Longrightarrow> \<not> draws rt op \<Longrightarrow> no_live_row rt (perform env db op)"
  by (cases op) (simp_all add: no_live_create no_live_refresh no_live_revoke no_live_revokeAll no_live_cleanup)

lemma no_live_foldl:
  "no_live_row rt db \<Longrightarrow> list_all (\<lambda>op. \<not> draws rt op) ops \<Longrightarrow> no_live_row rt (foldl (perform env) db ops)"
  by (induction ops arbitrary: db) (simp_all add: no_live_perform)

lemma refresh_success_no_live:
  assumes ok: "distinct (map s_refresh_token (sessions db))"
    and first: "refreshAccessToken env db now uniq rnd rt = (Inr (Some resp), db')"
  shows "no_live_row rt db' \<and> refresh_token resp \<noteq> rt"
  using refresh_cases [of env db now uniq rnd rt]
proof (elim disjE exE conjE)
  assume "refreshAccessToken env db now uniq rnd rt = (Inr None, db)"
  then show ?thesis using first by simp
next
  fix session :: OAuthSession and client :: OAuthClient
  let ?db1 = "revokeSession db (s_id session)"
  let ?g = "generateTokens env now uniq rnd (cl_client_id client) 3600"
  assume f: "find (\<lambda>s. s_refresh_token s = rt \<and> s_is_revoked s = 0) (sessions db) = Some session"
  assume r: "let db1 = revokeSession db (s_id session);
              g = generateTokens env now uniq rnd (cl_client_id client) 3600 in
          case saveSession db1 client (accessToken g) (refreshToken g) (expiresAt g) (refreshExpiresAt g) of
            Inl e \<Rightarrow> refreshAccessToken env db now uniq rnd rt = (Inl e, db1)
          | Inr (row, db2) \<Rightarrow> refreshAccessToken env db now uniq rnd rt =
              (Inr (Some \<lparr>access_token = accessToken g, refresh_token = refreshToken g,
                          token_type = ''Bearer'', expires_in = 3600\<rparr>), db2)"
  from f have mem: "session \<in> set (sessions db)" and tok: "s_refresh_token session = rt"
    using find_SomeD by fastforce+
  have live1: "no_live_row rt ?db1" using revoke_kills [OF ok mem tok] .
  have in1: "rt \<in> set (map s_refresh_token (sessions ?db1))"
    using mem tok by force
  show ?thesis
  proof (cases "saveSession ?db1 client (accessToken ?g) (refreshToken ?g) (expiresAt ?g) (refreshExpiresAt ?g)")
    case (Inl e)
    then show ?thesis using r first by (simp add: Let_def)
  next
    case (Inr p)
    obtain row db2 where p: "p = (row, db2)" by (cases p)
    have eq: "db' = db2" "resp = \<lparr>access_token = accessToken ?g, refresh_token = refreshToken ?g,
                          token_type = ''Bearer'', expires_in = 3600\<rparr>"
      using r Inr p first by (simp_all add: Let_def)
    have "no_live_row rt db2" using saveSession_no_live [OF live1] Inr p in1 by blast
    moreover have "refreshToken ?g \<noteq> rt"
      using Inr in1 by (auto simp: saveSession_def Let_def split: if_splits)
    ultimately show ?thesis using eq by simp
  qed
qed

text \<open>Every call of the service keeps the schema's constraints.\<close>

lemma schema_ok_saveSession:
  assumes "schema_ok db" "saveSession db client at rt ea rea = Inr (row, db')"
  shows "schema_ok db'"
proof -
  have fresh: "Suc (sessions_seq db) \<notin> set (map s_id (sessions db))"
    using assms(1) by (fastforce simp: schema_ok_def list_all_iff)
  have le: "list_all (\<lambda>s. s_id s \<le> Suc (sessions_seq db)) (sessions db)"
    using assms(1) by (fastforce simp: schema_ok_def list_all_iff)
  show ?thesis
    using assms fresh le
    by (simp add: schema_ok_def saveSession_def Let_def split: if_splits) auto
qed

lemma schema_ok_revokeSession: "schema_ok db \<Longrightarrow> schema_ok (revokeSession db i)"
  unfolding schema_ok_def by (simp add: list_all_iff) (auto simp: revokeSession_def)

lemma schema_ok_revokeAll: "schema_ok db \<Longrightarrow> schema_ok (revokeAllClientSessions db c)"
  by (auto simp: schema_ok_def revokeAllClientSessions_def list_all_iff comp_def if_distrib cong: if_cong)

lemma schema_ok_cleanup: "schema_ok db \<Longrightarrow> schema_ok (snd (cleanupExpiredSessions db now))"
  by (auto simp: schema_ok_def cleanupExpiredSessions_def list_all_iff distinct_map_filter)

lemma schema_ok_create: "schema_ok db \<Longrightarrow> schema_ok (snd (createTokenResponse env db now uniq rnd cid sec))"
  by (auto simp: createTokenResponse_def Let_def split: option.splits sum.splits dest: schema_ok_saveSession)

lemma schema_ok_refresh: "schema_ok db \<Longrightarrow> schema_ok (snd (refreshAccessToken env db now uniq rnd rt))"
  by (auto simp: refreshAccessToken_def Let_def schema_ok_revokeSession split: option.splits sum.splits
      dest: schema_ok_saveSession [OF schema_ok_revokeSession])

lemma schema_ok_perform: "schema_ok db \<Longrightarrow> schema_ok (perform env db op)"
  by (cases op) (simp_all add: schema_ok_create schema_ok_refresh schema_ok_revokeSession schema_ok_revokeAll schema_ok_cleanup)

lemma schema_ok_foldl: "schema_ok db \<Longrightarrow> schema_ok (foldl (perform env) db ops)"
  by (induction ops arbitrary: db) (simp_all add: schema_ok_perform)

lemma schema_ok_empty: "schema_ok \<lparr>clients = cs, sessions = [], sessions_seq = n\<rparr>"
  by (simp add: schema_ok_def)

text \<open>
  Claim C1. A refresh token is single-use. On a database that satisfies the schema, when
  a call of \<open>refreshAccessToken\<close> returns a new token pair, the call has revoked the
  session that owned the refresh token and then inserted the replacement row, whose
  refresh token is a different one; the next call with the same refresh token returns
  null, at any instant and with any random bytes, and so does a call after any further
  calls of the service, as long as none of them draws the same refresh token again.
\<close>

theorem C1_refresh_token_single_use:
  assumes ok: "schema_ok db"
    and first: "refreshAccessToken env db now uniq rnd rt = (Inr (Some resp), db')"
    and later: "list_all (\<lambda>op. \<not> draws rt op) ops"
  shows "refreshAccessToken env (foldl (perform env) db' ops) now' uniq' rnd' rt
           = (Inr None, foldl (perform env) db' ops)
       \<and> refreshAccessToken env db' now' uniq' rnd' rt = (Inr None, db')
       \<and> refresh_token resp \<noteq> rt
       \<and> (\<exists>session client row.
             find (\<lambda>s. s_refresh_token s = rt \<and> s_is_revoked s = 0) (sessions db) = Some session
           \<and> saveSession (revokeSession db (s_id session)) client
                 (access_token resp) (refresh_token resp)
                 (getExpirationDate now 3600) (getExpirationDate now (3600 * 24)) = Inr (row, db'))"
proof -
  have d: "distinct (map s_refresh_token (sessions db))"
    using ok by (simp add: schema_ok_def)
  have nl: "no_live_row rt db'" and ne: "refresh_token resp \<noteq> rt"
    using refresh_success_no_live [OF d first] by simp_all
  have a: "refreshAccessToken env (foldl (perform env) db' ops) now' uniq' rnd' rt
           = (Inr None, foldl (perform env) db' ops)"
    using refresh_no_live [OF no_live_foldl [OF nl later]] .
  have b: "refreshAccessToken env db' now' uniq' rnd' rt = (Inr None, db')"
    using refresh_no_live [OF nl] .
  have c: "\<exists>session client row.
             find (\<lambda>s. s_refresh_token s = rt \<and> s_is_revoked s = 0) (sessions db) = Some session
           \<and> saveSession (revokeSession db (s_id session)) client
                 (access_token resp) (refresh_token resp)
                 (getExpirationDate now 3600) (getExpirationDate now (3600 * 24)) = Inr (row, db')"
    using refresh_cases [of env db now uniq rnd rt] first
    by (fastforce simp: Let_def generateTokens_def split: sum.splits)
  from a b ne c show ?thesis by blast
qed

lemmas service_defs =
  createTokenResponse_def refreshAccessToken_def validateAccessToken_def authenticateClient_def
  verifySecret_def bound_text_def verifyToken_def jwt_verify_def jwt_sign_def generateTokens_def
  generateAccessToken_def generateRefreshToken_def getExpirationDate_def saveSession_def
  revokeSession_def revokeAllClientSessions_def cleanupExpiredSessions_def Let_def

lemmas example_defs = example_env_def example_db_def acme_def dormant_def

lemma issued_db_eq: "issued_db = \<lparr>clients = [acme, dormant],
   sessions = [\<lparr>s_id = 1, s_client_id = 1,
       s_access_token = Jwt \<lparr>clientId = ''acme'', type = access, jti = ''j1'', iat = 1000, exp = 4600\<rparr> ''your_jwt_secret'',
       s_refresh_token = Opaque ''r1'', s_token_type = ''Bearer'',
       s_expires_at = 4600000, s_refresh_expires_at = 87400000, s_is_revoked = 0\<rparr>],
   sessions_seq = 1\<rparr>"
  by (simp add: issued_db_def service_defs example_defs)

lemma refreshed_eq: "refreshAccessToken example_env issued_db 1000500 ''j2'' ''r2'' (Opaque ''r1'')
   = (Inr (Some \<lparr>access_token = Jwt \<lparr>clientId = ''acme'', type = access, jti = ''j2'', iat = 1000, exp = 4600\<rparr> ''your_jwt_secret'',
                  refresh_token = Opaque ''r2'', token_type = ''Bearer'', expires_in = 3600\<rparr>), refreshed_db)"
  by (simp add: refreshed_db_def issued_db_eq) (simp add: service_defs example_defs)

theorem C1_refresh_token_single_use_witness:
  "schema_ok issued_db
   \<and> refreshAccessToken example_env issued_db 1000500 ''j2'' ''r2'' (Opaque ''r1'')
       = (Inr (Some \<lparr>access_token = Jwt \<lparr>clientId = ''acme'', type = access, jti = ''j2'',
                                         iat = 1000, exp = 4600\<rparr> ''your_jwt_secret'',
                      refresh_token = Opaque ''r2'', token_type = ''Bearer'',
                      expires_in = 3600\<rparr>), refreshed_db)
   \<and> list_all (\<lambda>op. \<not> draws (Opaque ''r1'') op) later_calls
   \<and> refreshAccessToken example_env refreshed_db 1000600 ''j5'' ''r5'' (Opaque ''r1'')
       = (Inr None, refreshed_db)
   \<and> refreshAccessToken example_env (foldl (perform example_env) refreshed_db later_calls)
         5000300 ''j5'' ''r5'' (Opaque ''r1'')
       = (Inr None, foldl (perform example_env) refreshed_db later_calls)"
proof -
  have h1: "schema_ok issued_db"
    by (simp add: issued_db_eq schema_ok_def)
  have h3: "list_all (\<lambda>op. \<not> draws (Opaque ''r1'') op) later_calls"
    by (simp add: later_calls_def generateRefreshToken_def)
  show ?thesis
    using h1 refreshed_eq h3
      C1_refresh_token_single_use [OF h1 refreshed_eq h3, of 5000300 "''j5''" "''r5''"]
      C1_refresh_token_single_use [OF h1 refreshed_eq h3, of 1000600 "''j5''" "''r5''"]
    by simp
qed

lemma find_None_filter: "(find P xs = None) = (filter P xs = [])"
  by (induction xs) auto

text \<open>
  What holds of credentials that are texts: \<open>authenticateClient\<close> returns null exactly
  when the identifier is unknown, the client is inactive or the secret is wrong, and
  POST /auth/token answers every such pair with the same 401 and leaves the database
  untouched.
\<close>

lemma authenticate_None_iff:
  "(authenticateClient env db (JStr cid) (JStr sec) = Inr None) =
     (fails_by env db cid sec UnknownIdentifier \<or> fails_by env db cid sec InactiveClient
      \<or> fails_by env db cid sec WrongSecret)"
proof (cases "find (\<lambda>c. cl_client_id c = cid \<and> cl_is_active c = 1) (clients db)")
  case None
  then have "filter (\<lambda>c. cl_client_id c = cid \<and> cl_is_active c = 1) (clients db) = []"
    by (simp add: find_None_filter)
  then show ?thesis using None by (auto simp: authenticateClient_def bound_text_def)
next
  case (Some c)
  then have "c \<in> set (clients db)" "cl_client_id c = cid"
    using find_SomeD by fastforce+
  moreover have "filter (\<lambda>c. cl_client_id c = cid \<and> cl_is_active c = 1) (clients db) \<noteq> []"
    using Some find_None_filter [of "\<lambda>c. cl_client_id c = cid \<and> cl_is_active c = 1" "clients db"] by simp
  ultimately show ?thesis using Some
    by (auto simp: authenticateClient_def bound_text_def verifySecret_def)
qed

lemma authenticate_text_total:
  "authenticateClient env db (JStr cid) (JStr sec) \<noteq> Inl e"
  by (simp add: authenticateClient_def bound_text_def verifySecret_def split: option.splits)

lemma token_failure_response:
  assumes "cid \<noteq> []" "sec \<noteq> []" "authenticateClient env db (JStr cid) (JStr sec) = Inr None"
  shows "AuthController_token env db now uniq rnd
           (JObj [(''client_id'', JStr cid), (''client_secret'', JStr sec),
                  (''grant_type'', JStr ''client_credentials'')])
         = ((401, ErrorResponse ''invalid_client'' ''Client authentication failed''), db)"
  using assms by (simp add: AuthController_token_def get_field_def createTokenResponse_def)

text \<open>
  What holds of POST /auth/revoke: any token presented as a text, whether a session
  holds it or not, is answered with 200 and the same message.
\<close>

lemma revoke_response:
  "t \<noteq> Opaque [] \<Longrightarrow>
   fst (AuthController_revoke env db now \<lparr>req_token = Some t\<rparr>) = (200, Message ''Token revoked successfully'')"
  by (simp add: AuthController_revoke_def falsy_token_def split: option.splits)

text \<open>
  Claim C9, at a secret that is not a text. The body carries the number 123 as
  \<open>client_secret\<close>. For the active client \<open>acme\<close> the secret reaches \<open>bcrypt.compare\<close>,
  which rejects it, and the route answers 500 \<open>server_error\<close>; for an unknown
  identifier and for the inactive client \<open>dormant\<close> the secret is never looked at and
  the route answers 401 \<open>invalid_client\<close>. The failure response tells an active client
  from the two other cases.
\<close>

theorem C9_number_secret_reveals_active_client:
  "authenticateClient example_env example_db (JStr ''acme'') (JNum 123)
     = Inl (Error ''data and hash must be strings'')
   \<and> authenticateClient example_env example_db (JStr ''nobody'') (JNum 123) = Inr None
   \<and> authenticateClient example_env example_db (JStr ''dormant'') (JNum 123) = Inr None
   \<and> AuthController_token example_env example_db 1000000 ''j1'' ''r1'' (number_secret_body ''acme'')
     = ((500, ErrorResponse ''server_error'' ''An unexpected error occurred''), example_db)
   \<and> AuthController_token example_env example_db 1000000 ''j1'' ''r1'' (number_secret_body ''nobody'')
     = ((401, ErrorResponse ''invalid_client'' ''Client authentication failed''), example_db)
   \<and> AuthController_token example_env example_db 1000000 ''j1'' ''r1'' (number_secret_body ''dormant'')
     = ((401, ErrorResponse ''invalid_client'' ''Client authentication failed''), example_db)"
  by (simp add: AuthController_token_def number_secret_body_def get_field_def server_error_def
      createTokenResponse_def authenticateClient_def bound_text_def verifySecret_def example_defs)

lemma find_append_if:
  "find P (xs @ ys) = (case find P xs of None \<Rightarrow> find P ys | Some x \<Rightarrow> Some x)"
  by (induction xs) auto

lemma validate_SomeD:
  assumes "validateAccessToken env db now at = Some s"
  shows "s \<in> set (sessions db) \<and> s_access_token s = at \<and> s_is_revoked s = 0
         \<and> \<not> s_expires_at s < now
         \<and> (\<exists>p. at = Jwt p (jwtSecret env) \<and> now div 1000 < exp p)"
proof -
  from assms obtain p where v: "verifyToken env now at = Inr p"
    and f: "find (\<lambda>s. s_access_token s = at \<and> s_is_revoked s = 0) (sessions db) = Some s"
    and e: "\<not> s_expires_at s < now"
    by (auto simp: validateAccessToken_def split: sum.splits option.splits if_splits)
  from v have "\<exists>p. at = Jwt p (jwtSecret env) \<and> now div 1000 < exp p"
    by (auto simp: verifyToken_def jwt_verify_def split: token.splits option.splits if_splits)
  with find_SomeD [OF f] e show ?thesis by simp
qed

lemma validate_short_circuit:
  "\<not> (\<exists>p. at = Jwt p (jwtSecret env) \<and> now div 1000 < exp p) \<Longrightarrow>
   validateAccessToken env db now at = None"
  by (auto simp: validateAccessToken_def verifyToken_def jwt_verify_def split: token.splits)

lemma validate_iff:
  assumes "distinct (map s_access_token (sessions db))"
  shows "(validateAccessToken env db now at \<noteq> None) =
         ((\<exists>p. at = Jwt p (jwtSecret env) \<and> now div 1000 < exp p)
          \<and> (\<exists>s\<in>set (sessions db). s_access_token s = at \<and> s_is_revoked s = 0
                \<and> \<not> s_expires_at s < now))"
proof
  assume "validateAccessToken env db now at \<noteq> None"
  then obtain s where "validateAccessToken env db now at = Some s" by auto
  from validate_SomeD [OF this] show "(\<exists>p. at = Jwt p (jwtSecret env) \<and> now div 1000 < exp p)
          \<and> (\<exists>s\<in>set (sessions db). s_access_token s = at \<and> s_is_revoked s = 0
                \<and> \<not> s_expires_at s < now)" by blast
next
  assume r: "(\<exists>p. at = Jwt p (jwtSecret env) \<and> now div 1000 < exp p)
          \<and> (\<exists>s\<in>set (sessions db). s_access_token s = at \<and> s_is_revoked s = 0
                \<and> \<not> s_expires_at s < now)"
  then obtain s where s: "s \<in> set (sessions db)" "s_access_token s = at" "s_is_revoked s = 0"
      "\<not> s_expires_at s < now" by blast
  from r obtain p where p: "verifyToken env now at = Inr p"
    by (auto simp: verifyToken_def jwt_verify_def)
  let ?P = "\<lambda>s. s_access_token s = at \<and> s_is_revoked s = 0"
  have "find ?P (sessions db) \<noteq> None"
    using s by (auto simp: find_None_iff2)
  then obtain s' where f: "find ?P (sessions db) = Some s'" by auto
  from find_SomeD [OF f] have "s' \<in> set (sessions db)" "s_access_token s' = at" by simp_all
  with s assms have "s' = s" using distinct_map_eq by metis
  with f p s show "validateAccessToken env db now at \<noteq> None"
    by (simp add: validateAccessToken_def)
qed

lemma validate_after_revoke:
  assumes d: "distinct (map s_access_token (sessions db))"
    and v: "validateAccessToken env db now at = Some s"
  shows "validateAccessToken env (revokeSession db (s_id s)) now' at = None"
proof -
  from validate_SomeD [OF v] have s: "s \<in> set (sessions db)" "s_access_token s = at" by simp_all
  have "\<And>y. y \<in> set (sessions db) \<Longrightarrow> s_access_token y = at \<Longrightarrow> y = s"
    using d s distinct_map_eq by metis
  then have "find (\<lambda>s. s_access_token s = at \<and> s_is_revoked s = 0)
                (sessions (revokeSession db (s_id s))) = None"
    by (auto simp: find_None_iff2 sessions_revokeSession)
  then show ?thesis
    by (simp add: validateAccessToken_def split: sum.splits)
qed

lemma create_cases:
  assumes "createTokenResponse env db now uniq rnd cid sec = (Inr (Some resp), db')"
  shows "\<exists>(client::OAuthClient) row.
           access_token resp = Jwt \<lparr>clientId = cl_client_id client, type = access, jti = uniq,
                                    iat = now div 1000, exp = now div 1000 + 3600\<rparr> (jwtSecret env)
         \<and> access_token resp \<notin> set (map s_access_token (sessions db))
         \<and> row = \<lparr>s_id = Suc (sessions_seq db), s_client_id = cl_id client,
                   s_access_token = access_token resp, s_refresh_token = refresh_token resp,
                   s_token_type = ''Bearer'', s_expires_at = now + 3600000,
                   s_refresh_expires_at = now + 86400000, s_is_revoked = 0\<rparr>
         \<and> sessions db' = sessions db @ [row]"
  using assms
  by (auto simp: createTokenResponse_def saveSession_def generateTokens_def generateAccessToken_def
      jwt_sign_def getExpirationDate_def Let_def split: option.splits sum.splits if_splits)

lemma fresh_token_validates:
  assumes c: "createTokenResponse env db now uniq rnd cid sec = (Inr (Some resp), db')"
    and t: "now' div 1000 < now div 1000 + 3600"
  shows "\<exists>s. validateAccessToken env db' now' (access_token resp) = Some s
            \<and> s_access_token s = access_token resp
            \<and> validateAccessToken env (revokeSession db' (s_id s)) now' (access_token resp) = None"
proof -
  from create_cases [OF c] obtain client :: OAuthClient and row where
    at: "access_token resp = Jwt \<lparr>clientId = cl_client_id client, type = access, jti = uniq,
                                    iat = now div 1000, exp = now div 1000 + 3600\<rparr> (jwtSecret env)"
    and fresh: "access_token resp \<notin> set (map s_access_token (sessions db))"
    and row: "row = \<lparr>s_id = Suc (sessions_seq db), s_client_id = cl_id client,
                   s_access_token = access_token resp, s_refresh_token = refresh_token resp,
                   s_token_type = ''Bearer'', s_expires_at = now + 3600000,
                   s_refresh_expires_at = now + 86400000, s_is_revoked = 0\<rparr>"
    and ss: "sessions db' = sessions db @ [row]" by blast
  let ?P = "\<lambda>s. s_access_token s = access_token resp \<and> s_is_revoked s = 0"
  have none: "find ?P (sessions db) = None"
    using fresh by (force simp: find_None_iff2)
  have f: "find ?P (sessions db') = Some row"
    by (simp add: ss find_append_if none) (simp add: row)
  have v: "verifyToken env now' (access_token resp)
            = Inr \<lparr>clientId = cl_client_id client, type = access, jti = uniq,
                    iat = now div 1000, exp = now div 1000 + 3600\<rparr>"
    using t by (simp add: at verifyToken_def jwt_verify_def)
  have e: "\<not> s_expires_at row < now'"
    using t by (simp add: row)
  have 1: "validateAccessToken env db' now' (access_token resp) = Some row"
    using v f e by (simp add: validateAccessToken_def)
  have "find ?P (sessions (revokeSession db' (s_id row))) = None"
    using fresh by (force simp: find_None_iff2 sessions_revokeSession ss row)
  then have 2: "validateAccessToken env (revokeSession db' (s_id row)) now' (access_token resp) = None"
    by (simp add: validateAccessToken_def split: sum.splits)
  from 1 2 show ?thesis by (auto simp: row)
qed

lemma issuance_ok_revokeSession: "issuance_ok db \<Longrightarrow> issuance_ok (revokeSession db i)"
  by (fastforce simp: issuance_ok_def list_all_iff sessions_revokeSession split: token.splits)

lemma issuance_ok_revokeAll: "issuance_ok db \<Longrightarrow> issuance_ok (revokeAllClientSessions db c)"
  by (fastforce simp: issuance_ok_def list_all_iff revokeAllClientSessions_def split: token.splits)

lemma issuance_ok_cleanup: "issuance_ok db \<Longrightarrow> issuance_ok (snd (cleanupExpiredSessions db now))"
  by (auto simp: issuance_ok_def list_all_iff cleanupExpiredSessions_def)

lemma issuance_ok_saveSession:
  assumes "issuance_ok db"
    and "saveSession db client (accessToken (generateTokens env now uniq rnd cid 3600))
           rt (expiresAt (generateTokens env now uniq rnd cid 3600)) rea = Inr (row, db')"
  shows "issuance_ok db'"
proof -
  have "1000 * (now div 1000 + 3600) \<le> now + 3600 * 1000" for now :: int
    by arith
  then show ?thesis
    using assms
    by (auto simp: issuance_ok_def list_all_iff saveSession_def generateTokens_def
        generateAccessToken_def jwt_sign_def getExpirationDate_def Let_def split: if_splits)
qed

lemma issuance_ok_create:
  "issuance_ok db \<Longrightarrow> issuance_ok (snd (createTokenResponse env db now uniq rnd cid sec))"
  by (auto simp: createTokenResponse_def Let_def split: option.splits sum.splits
      dest: issuance_ok_saveSession)

lemma issuance_ok_refresh:
  "issuance_ok db \<Longrightarrow> issuance_ok (snd (refreshAccessToken env db now uniq rnd rt))"
  by (auto simp: refreshAccessToken_def Let_def issuance_ok_revokeSession
      split: option.splits sum.splits
      dest: issuance_ok_saveSession [OF issuance_ok_revokeSession])

lemma issuance_ok_perform: "issuance_ok db \<Longrightarrow> issuance_ok (perform env db op)"
  by (cases op) (simp_all add: issuance_ok_create issuance_ok_refresh issuance_ok_revokeSession
      issuance_ok_revokeAll issuance_ok_cleanup)

lemma issuance_ok_foldl: "issuance_ok db \<Longrightarrow> issuance_ok (foldl (perform env) db ops)"
  by (induction ops arbitrary: db) (simp_all add: issuance_ok_perform)

lemma issuance_ok_empty: "issuance_ok \<lparr>clients = cs, sessions = [], sessions_seq = n\<rparr>"
  by (simp add: issuance_ok_def)

lemma validate_issued_strict:
  assumes "issuance_ok db" "validateAccessToken env db now at = Some s"
  shows "now < s_expires_at s"
proof -
  from validate_SomeD [OF assms(2)] obtain p where
    s: "s \<in> set (sessions db)" "s_access_token s = at"
    and p: "at = Jwt p (jwtSecret env)" "now div 1000 < exp p" by blast
  from assms(1) s p(1) have "1000 * exp p \<le> s_expires_at s"
    by (auto simp: issuance_ok_def list_all_iff)
  moreover from p(2) have "now < 1000 * exp p" by arith
  ultimately show ?thesis by simp
qed

lemma validate_iff_strict:
  assumes "distinct (map s_access_token (sessions db))" "issuance_ok db"
  shows "(validateAccessToken env db now at \<noteq> None) =
         ((\<exists>p. at = Jwt p (jwtSecret env) \<and> now div 1000 < exp p)
          \<and> (\<exists>s\<in>set (sessions db). s_access_token s = at \<and> s_is_revoked s = 0
                \<and> now < s_expires_at s))"
proof
  assume "validateAccessToken env db now at \<noteq> None"
  then obtain s where v: "validateAccessToken env db now at = Some s" by auto
  from validate_SomeD [OF v] validate_issued_strict [OF assms(2) v]
  show "(\<exists>p. at = Jwt p (jwtSecret env) \<and> now div 1000 < exp p)
          \<and> (\<exists>s\<in>set (sessions db). s_access_token s = at \<and> s_is_revoked s = 0
                \<and> now < s_expires_at s)" by blast
next
  assume "(\<exists>p. at = Jwt p (jwtSecret env) \<and> now div 1000 < exp p)
          \<and> (\<exists>s\<in>set (sessions db). s_access_token s = at \<and> s_is_revoked s = 0
                \<and> now < s_expires_at s)"
  then have "(\<exists>p. at = Jwt p (jwtSecret env) \<and> now div 1000 < exp p)
          \<and> (\<exists>s\<in>set (sessions db). s_access_token s = at \<and> s_is_revoked s = 0
                \<and> \<not> s_expires_at s < now)" by force
  then show "validateAccessToken env db now at \<noteq> None"
    using validate_iff [OF assms(1)] by blast
qed

text \<open>
  Claim C2, as the code has it. On a database that satisfies the schema,
  \<open>validateAccessToken\<close> returns a session exactly when the token is a JWT signed with
  the configured key whose embedded expiry has not been reached, and a row of the
  sessions table holds that access token, is not revoked, and has a stored expiry that
  is not in the past (the row is kept at the very instant of its expiry); the session
  returned is that row, and a token that fails the JWT check is refused whatever the
  table holds. Where every stored expiry is at least the embedded one, as in the rows
  the service issues itself, a token that verifies has its stored expiry in the future. An access token just issued by \<open>createTokenResponse\<close> validates, at the
  instant of issue and until its embedded expiry; after \<open>revokeSession\<close> on the session
  returned, the same token is refused at every instant.
\<close>

theorem C2_validateAccessToken_amended:
  "(schema_ok db \<longrightarrow>
      (validateAccessToken env db now at \<noteq> None) =
        ((\<exists>p. at = Jwt p (jwtSecret env) \<and> now div 1000 < exp p)
         \<and> (\<exists>s\<in>set (sessions db). s_access_token s = at \<and> s_is_revoked s = 0
               \<and> now \<le> s_expires_at s)))
   \<and> (validateAccessToken env db now at = Some s \<longrightarrow>
        s \<in> set (sessions db) \<and> s_access_token s = at \<and> s_is_revoked s = 0
        \<and> now \<le> s_expires_at s)
   \<and> (\<not> (\<exists>p. at = Jwt p (jwtSecret env) \<and> now div 1000 < exp p) \<longrightarrow>
        validateAccessToken env db now at = None)
   \<and> (createTokenResponse env db now uniq rnd cid sec = (Inr (Some resp), db')
        \<and> now' div 1000 < now div 1000 + 3600 \<longrightarrow>
        (\<exists>s'. validateAccessToken env db' now' (access_token resp) = Some s'
            \<and> s_access_token s' = access_token resp
            \<and> validateAccessToken env (revokeSession db' (s_id s')) now' (access_token resp)
                = None))
   \<and> (schema_ok db \<and> validateAccessToken env db now at = Some s \<longrightarrow>
        validateAccessToken env (revokeSession db (s_id s)) now'' at = None)
   \<and> (schema_ok db \<and> issuance_ok db \<longrightarrow>
        (validateAccessToken env db now at \<noteq> None) =
          ((\<exists>p. at = Jwt p (jwtSecret env) \<and> now div 1000 < exp p)
           \<and> (\<exists>s\<in>set (sessions db). s_access_token s = at \<and> s_is_revoked s = 0
                 \<and> now < s_expires_at s)))"
proof -
  have c1: "schema_ok db \<longrightarrow>
      (validateAccessToken env db now at \<noteq> None) =
        ((\<exists>p. at = Jwt p (jwtSecret env) \<and> now div 1000 < exp p)
         \<and> (\<exists>s\<in>set (sessions db). s_access_token s = at \<and> s_is_revoked s = 0
               \<and> now \<le> s_expires_at s))"
    using validate_iff [of db env now at] by (simp add: schema_ok_def not_less)
  have c2: "validateAccessToken env db now at = Some s \<longrightarrow>
        s \<in> set (sessions db) \<and> s_access_token s = at \<and> s_is_revoked s = 0
        \<and> now \<le> s_expires_at s"
    using validate_SomeD [of env db now at s] by (simp add: not_less)
  have c3: "\<not> (\<exists>p. at = Jwt p (jwtSecret env) \<and> now div 1000 < exp p) \<longrightarrow>
        validateAccessToken env db now at = None"
    using validate_short_circuit [of at env now db] by blast
  have c4: "createTokenResponse env db now uniq rnd cid sec = (Inr (Some resp), db')
        \<and> now' div 1000 < now div 1000 + 3600 \<longrightarrow>
        (\<exists>s'. validateAccessToken env db' now' (access_token resp) = Some s'
            \<and> s_access_token s' = access_token resp
            \<and> validateAccessToken env (revokeSession db' (s_id s')) now' (access_token resp)
                = None)"
    using fresh_token_validates [of env db now uniq rnd cid sec resp db' now'] by blast
  have c5: "schema_ok db \<and> validateAccessToken env db now at = Some s \<longrightarrow>
        validateAccessToken env (revokeSession db (s_id s)) now'' at = None"
    using validate_after_revoke [of db env now at s now''] by (simp add: schema_ok_def)
  have c6: "schema_ok db \<and> issuance_ok db \<longrightarrow>
        (validateAccessToken env db now at \<noteq> None) =
          ((\<exists>p. at = Jwt p (jwtSecret env) \<and> now div 1000 < exp p)
           \<and> (\<exists>s\<in>set (sessions db). s_access_token s = at \<and> s_is_revoked s = 0
                 \<and> now < s_expires_at s))"
    using validate_iff_strict [of db env now at] by (simp add: schema_ok_def)
  from c1 c2 c3 c4 c5 c6 show ?thesis by (intro conjI)
qed

lemma boundary_db_eq: "boundary_db = \<lparr>clients = [acme, dormant],
   sessions = [\<lparr>s_id = 1, s_client_id = 1, s_access_token = issued_token,
       s_refresh_token = Opaque ''r1'', s_token_type = ''Bearer'',
       s_expires_at = 1000100, s_refresh_expires_at = 87400000, s_is_revoked = 0\<rparr>],
   sessions_seq = 1\<rparr>"
  by (simp add: boundary_db_def saveSession_def example_defs Let_def)

text \<open>
  The claim as stated fails at the instant of the stored expiry: the token is accepted,
  and no row with that token has its stored expiry in the future.
\<close>

theorem C2_validateAccessToken_counterexample:
  "validateAccessToken example_env boundary_db 1000100 issued_token \<noteq> None
   \<and> \<not> (\<exists>s\<in>set (sessions boundary_db).
           s_access_token s = issued_token \<and> s_is_revoked s = 0 \<and> 1000100 < s_expires_at s)"
  by (simp add: boundary_db_eq issued_token_def service_defs example_defs)

lemma issued_eq: "createTokenResponse example_env example_db 1000000 ''j1'' ''r1''
     (JStr ''acme'') (JStr ''s3cr3t'')
   = (Inr (Some \<lparr>access_token = issued_token, refresh_token = Opaque ''r1'',
                  token_type = ''Bearer'', expires_in = 3600\<rparr>), issued_db)"
  by (simp add: issued_db_def) (simp add: issued_token_def service_defs example_defs)

lemma issued_session_eq: "validateAccessToken example_env issued_db 1000100 issued_token
   = Some \<lparr>s_id = 1, s_client_id = 1, s_access_token = issued_token,
       s_refresh_token = Opaque ''r1'', s_token_type = ''Bearer'',
       s_expires_at = 4600000, s_refresh_expires_at = 87400000, s_is_revoked = 0\<rparr>"
  by (simp add: issued_db_eq issued_token_def service_defs example_defs)

theorem C2_validateAccessToken_amended_witness:
  "schema_ok issued_db
   \<and> createTokenResponse example_env example_db 1000000 ''j1'' ''r1''
         (JStr ''acme'') (JStr ''s3cr3t'')
       = (Inr (Some \<lparr>access_token = issued_token, refresh_token = Opaque ''r1'',
                      token_type = ''Bearer'', expires_in = 3600\<rparr>), issued_db)
   \<and> (1000100::int) div 1000 < 1000000 div 1000 + 3600
   \<and> validateAccessToken example_env issued_db 1000100 issued_token \<noteq> None
   \<and> (\<exists>p. issued_token = Jwt p (jwtSecret example_env) \<and> 1000100 div 1000 < exp p)
   \<and> (\<exists>s\<in>set (sessions issued_db). s_access_token s = issued_token \<and> s_is_revoked s = 0
         \<and> 1000100 \<le> s_expires_at s)
   \<and> validateAccessToken example_env (revokeSession issued_db 1) 1000200 issued_token = None
   \<and> \<not> (\<exists>p. Opaque ''r1'' = Jwt p (jwtSecret example_env) \<and> 1000100 div 1000 < exp p)
   \<and> validateAccessToken example_env issued_db 1000100 (Opaque ''r1'') = None
   \<and> (\<exists>s'. validateAccessToken example_env issued_db 1000100 issued_token = Some s'
          \<and> s_access_token s' = issued_token
          \<and> validateAccessToken example_env (revokeSession issued_db (s_id s')) 1000100
               issued_token = None)
   \<and> issuance_ok issued_db
   \<and> (\<exists>s\<in>set (sessions issued_db). s_access_token s = issued_token \<and> s_is_revoked s = 0
         \<and> 1000100 < s_expires_at s)"
proof -
  have h1: "schema_ok issued_db"
    by (simp add: issued_db_eq schema_ok_def)
  have h2: "(1000100::int) div 1000 < 1000000 div 1000 + 3600" by simp
  have h3: "\<not> (\<exists>p. Opaque ''r1'' = Jwt p (jwtSecret example_env) \<and> 1000100 div 1000 < exp p)"
    by simp
  note T = C2_validateAccessToken_amended [where env = example_env and db = issued_db
      and now = 1000100 and at = issued_token
      and s = "\<lparr>s_id = 1, s_client_id = 1, s_access_token = issued_token,
       s_refresh_token = Opaque ''r1'', s_token_type = ''Bearer'',
       s_expires_at = 4600000, s_refresh_expires_at = 87400000, s_is_revoked = 0\<rparr>"
      and now'' = 1000200]
  note U = C2_validateAccessToken_amended [where env = example_env and db = issued_db
      and now = 1000100 and at = "Opaque ''r1''"]
  have v: "validateAccessToken example_env issued_db 1000100 issued_token \<noteq> None"
    using issued_session_eq by simp
  have a1: "(\<exists>p. issued_token = Jwt p (jwtSecret example_env) \<and> 1000100 div 1000 < exp p)
     \<and> (\<exists>s\<in>set (sessions issued_db). s_access_token s = issued_token \<and> s_is_revoked s = 0
         \<and> 1000100 \<le> s_expires_at s)"
    using T h1 v by blast
  have a2: "validateAccessToken example_env (revokeSession issued_db 1) 1000200 issued_token = None"
    using T h1 issued_session_eq by simp
  have a3: "validateAccessToken example_env issued_db 1000100 (Opaque ''r1'') = None"
    using U h3 by blast
  have a4: "\<exists>s'. validateAccessToken example_env issued_db 1000100 issued_token = Some s'
          \<and> s_access_token s' = issued_token
          \<and> validateAccessToken example_env (revokeSession issued_db (s_id s')) 1000100
               issued_token = None"
    using C2_validateAccessToken_amended [where env = example_env and db = example_db
      and now = 1000000 and uniq = "''j1''" and rnd = "''r1''" and cid = "JStr ''acme''"
      and sec = "JStr ''s3cr3t''" and db' = issued_db and now' = 1000100
      and resp = "\<lparr>access_token = issued_token, refresh_token = Opaque ''r1'',
                  token_type = ''Bearer'', expires_in = 3600\<rparr>"] issued_eq h2
    by simp
  have h4: "issuance_ok issued_db"
    by (simp add: issued_db_eq issuance_ok_def)
  have a5: "\<exists>s\<in>set (sessions issued_db). s_access_token s = issued_token \<and> s_is_revoked s = 0
         \<and> 1000100 < s_expires_at s"
    using T h1 h4 v by blast
  from h1 issued_eq h2 v a1 a2 h3 a3 a4 h4 a5 show ?thesis by (intro conjI) simp_all
qed

section \<open>Properties of the integration registry and the webhook controller\<close>

lemma single_byte_mutation_neq: "single_byte_mutation xs ys \<Longrightarrow> xs \<noteq> ys \<and> length xs = length ys"
proof -
  have "filter (\<lambda>(x, y). x \<noteq> y) (zip zs zs) = []" for zs :: string
    by (induction zs) auto
  then show "single_byte_mutation xs ys \<Longrightarrow> xs \<noteq> ys \<and> length xs = length ys"
    by (auto simp: single_byte_mutation_def)
qed

lemma manager_secret:
  assumes "getIntegration integrations name = Own cfg" "ic_webhooks cfg = Some wh"
    "wh_secret wh = Some secret" "secret \<noteq> []"
  shows "validateWebhookSignature pf integrations name payload signature
         = timingSafeEqual signature (hmac_sha256_hex pf secret payload)"
  using assms by (simp add: validateWebhookSignature_def webhooks_of_def)

lemma timingSafeEqual_True_iff: "(timingSafeEqual a b = Inr True) = (a = b)"
  by (auto simp: timingSafeEqual_def)

lemma validateSignature_iff: "validateSignature pf payload signature secret
    = (signature = hmac_sha256_hex pf secret payload)"
  by (auto simp: validateSignature_def timingSafeEqual_def)

text \<open>
  What holds of the two signature checks, whatever the keyed digest is. For an
  integration with a webhook secret configured (a non-empty text), both checks accept
  the signature that is the digest of the payload under the secret. Any other signature
  is not accepted: the controller's check gives false; the manager's gives false when
  the signature has the digest's length, as after a single-byte mutation, and throws the
  range error of \<open>timingSafeEqual\<close> otherwise. With no secret configured the manager's
  check returns false and does not throw.
\<close>

lemma signature_checks:
  assumes "getIntegration integrations name = Own cfg" "ic_webhooks cfg = Some wh"
    "wh_secret wh = Some secret" "secret \<noteq> []"
  shows "validateWebhookSignature pf integrations name payload
            (hmac_sha256_hex pf secret payload) = Inr True"
    and "validateSignature pf payload (hmac_sha256_hex pf secret payload) secret"
    and "signature \<noteq> hmac_sha256_hex pf secret payload \<Longrightarrow>
            validateWebhookSignature pf integrations name payload signature \<noteq> Inr True
          \<and> \<not> validateSignature pf payload signature secret"
    and "single_byte_mutation (hmac_sha256_hex pf secret payload) signature \<Longrightarrow>
            validateWebhookSignature pf integrations name payload signature = Inr False
          \<and> \<not> validateSignature pf payload signature secret"
proof -
  note m = manager_secret [OF assms]
  show "validateWebhookSignature pf integrations name payload
            (hmac_sha256_hex pf secret payload) = Inr True"
    by (simp add: m timingSafeEqual_def)
  show "validateSignature pf payload (hmac_sha256_hex pf secret payload) secret"
    by (simp add: validateSignature_iff)
  show "signature \<noteq> hmac_sha256_hex pf secret payload \<Longrightarrow>
            validateWebhookSignature pf integrations name payload signature \<noteq> Inr True
          \<and> \<not> validateSignature pf payload signature secret"
    by (simp add: m timingSafeEqual_True_iff validateSignature_iff)
  show "single_byte_mutation (hmac_sha256_hex pf secret payload) signature \<Longrightarrow>
            validateWebhookSignature pf integrations name payload signature = Inr False
          \<and> \<not> validateSignature pf payload signature secret"
    using single_byte_mutation_neq [of "hmac_sha256_hex pf secret payload" signature]
    by (auto simp: m timingSafeEqual_def validateSignature_iff)
qed

lemma no_secret_gives_false:
  assumes "\<not> (\<exists>c w k. getIntegration integrations name = Own c \<and> ic_webhooks c = Some w
              \<and> wh_secret w = Some k \<and> k \<noteq> [])"
  shows "validateWebhookSignature pf integrations name payload signature = Inr False"
  using assms
  by (auto simp: validateWebhookSignature_def webhooks_of_def split: option.splits property.splits)

text \<open>
  The signature of a payload presented with another payload: both checks accept it
  exactly when the two payloads have the same digest under the secret. That the digests
  of two payloads differ is a property of HMAC-SHA256, which is a parameter here.
\<close>

lemma signature_of_other_payload:
  assumes "getIntegration integrations name = Own cfg" "ic_webhooks cfg = Some wh"
    "wh_secret wh = Some secret" "secret \<noteq> []"
  shows "(validateWebhookSignature pf integrations name payload'
             (hmac_sha256_hex pf secret payload) = Inr True)
          = (hmac_sha256_hex pf secret payload' = hmac_sha256_hex pf secret payload)"
    and "validateSignature pf payload' (hmac_sha256_hex pf secret payload) secret
          = (hmac_sha256_hex pf secret payload' = hmac_sha256_hex pf secret payload)"
  by (auto simp: manager_secret [OF assms] timingSafeEqual_True_iff validateSignature_iff)

lemmas registry_defs =
  getIntegration_def isEnabled_def getEndpoint_def property_def webhooks_of_def
  defaultIntegrations_def booking_engine_def pms_system_def channel_manager_def env_or_def
  no_credentials_def example_penv_def

text \<open>
  Claim C4. On POST /webhooks/:integration, for an enabled integration whose webhook
  descriptor is enabled and carries a secret, a request without the
  X-Webhook-Signature header is accepted: the response is the 200 success envelope,
  whatever the keyed digest of the body would be, so no signature is verified. (The
  body is what the JSON body parser leaves, an object or an array, not undefined or
  null.)
\<close>

theorem C4_unsigned_webhook_accepted:
  "isEnabled integrations (wr_integration req)
   \<and> getIntegration integrations (wr_integration req) = Own cfg
   \<and> ic_webhooks cfg = Some wh \<and> wh_enabled wh \<and> truthy_text (wh_secret wh)
   \<and> wr_signature req = None
   \<and> wr_body req \<noteq> JUndefined \<and> wr_body req \<noteq> JNull \<longrightarrow>
     receive pf integrations timestamp req
       = Inr (200, JObj [(''success'', JBool True),
                (''message'', JStr ''Webhook received and processed''),
                (''data'', JObj [(''processed'', JBool True), (''timestamp'', JStr timestamp),
                   (''event'', if truthy (get_field (wr_body req) ''event'')
                               then get_field (wr_body req) ''event'' else JStr ''unknown''),
                   (''integration'', JStr (wr_integration req))])])
     \<and> receive pf integrations timestamp req = receive pf' integrations timestamp req"
proof (intro impI, elim conjE)
  assume h: "isEnabled integrations (wr_integration req)"
    "getIntegration integrations (wr_integration req) = Own cfg"
    "ic_webhooks cfg = Some wh" "wh_enabled wh" "wr_signature req = None"
    "wr_body req \<noteq> JUndefined" "wr_body req \<noteq> JNull"
  have nr: "\<not> signature_refused q (wh_secret wh) req" for q
    using h(5) by (simp add: signature_refused_def split: option.splits)
  have r: "receive q integrations timestamp req
       = Inr (200, JObj [(''success'', JBool True),
                (''message'', JStr ''Webhook received and processed''),
                (''data'', JObj [(''processed'', JBool True), (''timestamp'', JStr timestamp),
                   (''event'', if truthy (get_field (wr_body req) ''event'')
                               then get_field (wr_body req) ''event'' else JStr ''unknown''),
                   (''integration'', JStr (wr_integration req))])])" for q
    using h nr [of q] by (simp add: receive_def webhooks_of_def processWebhook_def Let_def)
  show "receive pf integrations timestamp req
       = Inr (200, JObj [(''success'', JBool True),
                (''message'', JStr ''Webhook received and processed''),
                (''data'', JObj [(''processed'', JBool True), (''timestamp'', JStr timestamp),
                   (''event'', if truthy (get_field (wr_body req) ''event'')
                               then get_field (wr_body req) ''event'' else JStr ''unknown''),
                   (''integration'', JStr (wr_integration req))])])
     \<and> receive pf integrations timestamp req = receive pf' integrations timestamp req"
    using r [of pf] r [of pf'] by simp
qed

theorem C4_unsigned_webhook_accepted_witness:
  "isEnabled (defaultIntegrations example_penv) (wr_integration unsigned_request)
   \<and> getIntegration (defaultIntegrations example_penv) (wr_integration unsigned_request)
       = Own (booking_engine example_penv)
   \<and> wh_enabled (the (ic_webhooks (booking_engine example_penv)))
   \<and> wh_secret (the (ic_webhooks (booking_engine example_penv))) = Some ''whsec''
   \<and> wr_signature unsigned_request = None
   \<and> receive toy_platform (defaultIntegrations example_penv) ''2026-01-01T00:00:00.000Z''
        unsigned_request
       = Inr (200, JObj [(''success'', JBool True),
                (''message'', JStr ''Webhook received and processed''),
                (''data'', JObj [(''processed'', JBool True),
                   (''timestamp'', JStr ''2026-01-01T00:00:00.000Z''),
                   (''event'', JStr ''reservation.created''),
                   (''integration'', JStr ''booking_engine'')])])"
proof -
  let ?I = "defaultIntegrations example_penv"
  let ?wh = "\<lparr>wh_enabled = True, wh_secret = Some ''whsec'',
              wh_events = Some [''reservation.created'', ''reservation.updated'',
                                ''reservation.cancelled'']\<rparr>"
  have e: "isEnabled ?I (wr_integration unsigned_request)"
    by (simp add: registry_defs unsigned_request_def)
  have g: "getIntegration ?I (wr_integration unsigned_request) = Own (booking_engine example_penv)"
    by (simp add: getIntegration_def property_def defaultIntegrations_def unsigned_request_def)
  have w: "ic_webhooks (booking_engine example_penv) = Some ?wh"
    by (simp add: booking_engine_def example_penv_def)
  have p: "wh_enabled ?wh" "truthy_text (wh_secret ?wh)" "wr_signature unsigned_request = None"
    "wr_body unsigned_request \<noteq> JUndefined" "wr_body unsigned_request \<noteq> JNull"
    by (simp_all add: truthy_text_def unsigned_request_def)
  have r: "receive toy_platform ?I ''2026-01-01T00:00:00.000Z'' unsigned_request
       = Inr (200, JObj [(''success'', JBool True),
                (''message'', JStr ''Webhook received and processed''),
                (''data'', JObj [(''processed'', JBool True),
                   (''timestamp'', JStr ''2026-01-01T00:00:00.000Z''),
                   (''event'', JStr ''reservation.created''),
                   (''integration'', JStr ''booking_engine'')])])"
    using C4_unsigned_webhook_accepted [where integrations = ?I and req = unsigned_request
        and cfg = "booking_engine example_penv" and wh = ?wh and pf = toy_platform
        and timestamp = "''2026-01-01T00:00:00.000Z''"] e g w p
    by (simp add: unsigned_request_def get_field_def)
  from e g w p r show ?thesis by simp
qed

text \<open>
  Claim C5, at the event route. \<open>pms_system\<close> of the default configuration is enabled
  and its webhook descriptor has \<open>enabled: false\<close>. The generic route refuses a webhook
  to it with 400 \<open>webhooks_disabled\<close>; the event route, which has no such test,
  processes the same webhook and answers 200.
\<close>

theorem C5_event_route_skips_webhooks_disabled:
  "isEnabled (defaultIntegrations Map.empty) ''pms_system''
   \<and> ic_webhooks (pms_system Map.empty)
       = Some \<lparr>wh_enabled = False, wh_secret = None, wh_events = None\<rparr>
   \<and> receive pf (defaultIntegrations Map.empty) timestamp pms_request
       = Inr (400, JObj [(''error'', JStr ''webhooks_disabled''),
                (''message'', JStr (''Webhooks not enabled for integration ''
                                     @ quoted ''pms_system''))])
   \<and> receiveEvent pf (defaultIntegrations Map.empty) timestamp pms_request
       = Inr (200, JObj [(''success'', JBool True), (''event'', JStr ''reservation.created''),
                (''data'', JObj [(''processed'', JBool True), (''timestamp'', JStr timestamp),
                   (''event'', JStr ''reservation.created''),
                   (''integration'', JStr ''pms_system'')])])"
  by (simp add: receive_def receiveEvent_def signature_refused_def processWebhook_def
      getIntegration_def property_def webhooks_of_def isEnabled_def defaultIntegrations_def
      pms_system_def pms_request_def Let_def)

text \<open>
  What holds of the generic route: an enabled integration without an enabled webhook
  descriptor is refused with 400 \<open>webhooks_disabled\<close>, whatever the signature.
\<close>

lemma receive_webhooks_disabled:
  assumes "isEnabled integrations (wr_integration req)"
    and "getIntegration integrations (wr_integration req) = Own cfg"
    and "ic_webhooks cfg = None \<or> (\<exists>wh. ic_webhooks cfg = Some wh \<and> \<not> wh_enabled wh)"
    and "wr_body req \<noteq> JUndefined" "wr_body req \<noteq> JNull"
  shows "receive pf integrations timestamp req
       = Inr (400, JObj [(''error'', JStr ''webhooks_disabled''),
                (''message'', JStr (''Webhooks not enabled for integration ''
                                     @ quoted (wr_integration req)))])"
  using assms by (auto simp: receive_def webhooks_of_def Let_def)

text \<open>
  Claim C6, for the bearer kind. The integration declares a static Authorization header
  and a bearer token: the header returned is the synthesized one, the static value is
  overridden. The api_key kind does keep a static X-API-Key header.
\<close>

theorem C6_bearer_overrides_static_header:
  "auth_headers (ic_auth (the (static_header_integrations ''with_bearer'')))
     = Some [''Authorization'' \<mapsto> ''Static value'']
   \<and> getAuthHeaders pf static_header_integrations ''with_bearer''
       = Inr [''Authorization'' \<mapsto> ''Bearer tok'']
   \<and> getAuthHeaders pf static_header_integrations ''with_api_key''
       = Inr [''X-API-Key'' \<mapsto> ''Static value'']"
  by (simp add: getAuthHeaders_def getIntegration_def property_def static_header_integrations_def
      no_credentials_def truthy_text_def)

text \<open>
  What holds of \<open>getAuthHeaders\<close>: every static header other than Authorization and
  X-API-Key is in the result; the kinds none and oauth2 return the static headers and
  nothing else; the api_key kind keeps a static X-API-Key header that is not empty.
\<close>

lemma getAuthHeaders_Own:
  "getIntegration integrations name = Own cfg \<Longrightarrow>
   \<exists>h. getAuthHeaders pf integrations name = Inr h"
  by (simp add: getAuthHeaders_def Let_def)

lemma getAuthHeaders_static:
  assumes "getIntegration integrations name = Own cfg"
    and "auth_headers (ic_auth cfg) = Some static"
    and "getAuthHeaders pf integrations name = Inr result"
  shows "(h \<noteq> ''Authorization'' \<and> h \<noteq> ''X-API-Key'' \<longrightarrow> result h = static h)
    \<and> (auth_type (ic_auth cfg) = auth_none \<or> auth_type (ic_auth cfg) = auth_oauth2 \<longrightarrow>
           result = static)
    \<and> (auth_type (ic_auth cfg) = auth_api_key \<and> truthy_text (static ''X-API-Key'') \<longrightarrow>
           result = static)"
proof (cases "auth_type (ic_auth cfg)")
  case auth_none
  then show ?thesis using assms by (auto simp: getAuthHeaders_def)
next
  case auth_basic
  then show ?thesis using assms
    by (auto simp: getAuthHeaders_def split: option.splits)
next
  case auth_bearer
  then show ?thesis using assms
    by (auto simp: getAuthHeaders_def split: option.splits)
next
  case auth_oauth2
  then show ?thesis using assms by (auto simp: getAuthHeaders_def)
next
  case auth_api_key
  then show ?thesis using assms
    by (auto simp: getAuthHeaders_def split: option.splits)
qed

section \<open>Properties of the proxy controller\<close>

lemma forward_transform:
  assumes "isEnabled integrations (pr_integration req)"
    and "getEndpoint integrations (pr_integration req) (pr_endpoint req) = Inr (Own ep)"
    and "ep_transformer ep = Some t" "t \<noteq> []" "truthy (pr_body req)"
  shows "forward pf integrations transformers net req =
           (case transform transformers t (pr_body req) of
              Inl message \<Rightarrow> (transformation_error message, [])
            | Inr requestData \<Rightarrow> dispatch pf integrations net req requestData)"
  using assms by (simp add: forward_def Let_def truthy_text_def)

lemma forward_skip:
  assumes "isEnabled integrations (pr_integration req)"
    and "getEndpoint integrations (pr_integration req) (pr_endpoint req) = Inr (Own ep)"
    and "\<not> truthy (pr_body req)"
  shows "forward pf integrations transformers net req
           = dispatch pf integrations net req (pr_body req)"
  using assms by (simp add: forward_def Let_def)

lemma truthy_not_undefined: "truthy v \<Longrightarrow> v \<noteq> JUndefined"
  by auto

lemma transform_failures:
  assumes "v \<noteq> JUndefined"
  shows "transformers t = None \<Longrightarrow>
           transform transformers t v = Inl (''Transformer '' @ quoted t @ '' not found'')"
    and "transformers t = Some tr \<Longrightarrow> t_validate tr v = Inl m \<Longrightarrow>
           transform transformers t v = Inl m"
    and "transformers t = Some tr \<Longrightarrow> t_validate tr v = Inr False \<Longrightarrow>
           transform transformers t v = Inl ''Input validation failed''"
    and "transformers t = Some tr \<Longrightarrow> t_validate tr v = Inr True \<Longrightarrow> t_transform tr v = Inl m \<Longrightarrow>
           transform transformers t v = Inl m"
  using assms by (simp_all add: transform_def execute_def)

text \<open>
  Claim C8, as the code has it. For a call to an enabled integration whose endpoint
  declares a transformer, and whose request body is truthy: when the transformer is not
  registered, when its validator throws or returns false, or when its mapping throws,
  \<open>forward\<close> answers 400 \<open>transformation_error\<close> with the message of the failure as
  details, and no request goes out.
\<close>

theorem C8_transformation_error_amended:
  "isEnabled integrations (pr_integration req)
   \<and> getEndpoint integrations (pr_integration req) (pr_endpoint req) = Inr (Own ep)
   \<and> ep_transformer ep = Some t \<and> t \<noteq> [] \<and> truthy (pr_body req) \<longrightarrow>
     (transformers t = None \<longrightarrow>
        forward pf integrations transformers net req
          = (transformation_error (''Transformer '' @ quoted t @ '' not found''), []))
   \<and> (transformers t = Some tr \<and> t_validate tr (pr_body req) = Inl m \<longrightarrow>
        forward pf integrations transformers net req = (transformation_error m, []))
   \<and> (transformers t = Some tr \<and> t_validate tr (pr_body req) = Inr False \<longrightarrow>
        forward pf integrations transformers net req
          = (transformation_error ''Input validation failed'', []))
   \<and> (transformers t = Some tr \<and> t_validate tr (pr_body req) = Inr True
        \<and> t_transform tr (pr_body req) = Inl m \<longrightarrow>
        forward pf integrations transformers net req = (transformation_error m, []))"
proof (intro impI, elim conjE)
  assume h: "isEnabled integrations (pr_integration req)"
    "getEndpoint integrations (pr_integration req) (pr_endpoint req) = Inr (Own ep)"
    "ep_transformer ep = Some t" "t \<noteq> []" "truthy (pr_body req)"
  note f = forward_transform [OF h, of pf transformers net]
  note u = truthy_not_undefined [OF h(5)]
  show "(transformers t = None \<longrightarrow>
        forward pf integrations transformers net req
          = (transformation_error (''Transformer '' @ quoted t @ '' not found''), []))
   \<and> (transformers t = Some tr \<and> t_validate tr (pr_body req) = Inl m \<longrightarrow>
        forward pf integrations transformers net req = (transformation_error m, []))
   \<and> (transformers t = Some tr \<and> t_validate tr (pr_body req) = Inr False \<longrightarrow>
        forward pf integrations transformers net req
          = (transformation_error ''Input validation failed'', []))
   \<and> (transformers t = Some tr \<and> t_validate tr (pr_body req) = Inr True
        \<and> t_transform tr (pr_body req) = Inl m \<longrightarrow>
        forward pf integrations transformers net req = (transformation_error m, []))"
    using transform_failures [OF u]
    by (auto simp: f)
qed

lemma replace_first_prefix: "replace_first pat [] (pat @ p) = p"
proof (cases "pat @ p")
  case Nil
  then show ?thesis by simp
next
  case (Cons a list)
  have "take (length pat) (pat @ p) = pat" "drop (length pat) (pat @ p) = p"
    by simp_all
  with Cons show ?thesis by simp
qed

lemma own_endpoint:
  assumes "getIntegration integrations name = Own cfg"
    and "getEndpoint integrations name endpoint = Inr (Own ep)"
  shows "property (ic_endpoints cfg) endpoint = Own ep"
  using assms by (simp add: getEndpoint_def)

text \<open>
  The last step of \<open>forward\<close> for an endpoint of the configuration: when the URL, the
  base URL followed by the path with its parameters filled in, is the empty text, the
  client throws and no request is made; otherwise one request goes out, to the base
  URL and that path, with the timeout, the retries and the headers of the integration,
  and the response relays what the upstream answers.
\<close>

lemma dispatch_own:
  assumes c: "getIntegration integrations (pr_integration req) = Own cfg"
    and e: "getEndpoint integrations (pr_integration req) (pr_endpoint req) = Inr (Own ep)"
    and a: "getAuthHeaders pf integrations (pr_integration req) = Inr authHeaders"
  shows "dispatch pf integrations net req v =
     (if ic_baseUrl cfg @ fill_path pf (ep_path ep) (pr_query req) = []
      then (proxy_error (''Could not build URL for endpoint '' @ quoted (pr_endpoint req)) None, [])
      else
        let request =
              \<lparr>or_baseURL = ic_baseUrl cfg,
               or_timeout = num_or (ic_timeout cfg) 30000,
               or_retries = num_or (ic_retries cfg) 3,
               or_headers = [''Content-Type'' \<mapsto> ''application/json'',
                             ''User-Agent'' \<mapsto> ''API-Middleware/1.0''] ++ authHeaders,
               or_method = (case ep_method ep of None \<Rightarrow> GET | Some m \<Rightarrow> m),
               or_url = fill_path pf (ep_path ep) (pr_query req),
               or_data = (case (case ep_method ep of None \<Rightarrow> GET | Some m \<Rightarrow> m) of
                            GET \<Rightarrow> None | DELETE \<Rightarrow> None | _ \<Rightarrow> Some v)\<rparr>
        in ((case net request of
               AxiosResponse st body \<Rightarrow> (st, body)
             | AxiosError message response \<Rightarrow> proxy_error message response), [request]))"
proof -
  note p = own_endpoint [OF c e]
  have b: "buildUrl pf integrations (pr_integration req) (pr_endpoint req) (pr_query req)
      = Inr (Some (ic_baseUrl cfg @ fill_path pf (ep_path ep) (pr_query req)))"
    using c e by (simp add: buildUrl_def)
  show ?thesis
    using c e a
    by (simp add: dispatch_def createHttpClient_def callEndpoint_def b replace_first_prefix Let_def
        split: axios_outcome.splits)
qed

lemma default_baseUrl:
  assumes "getIntegration (defaultIntegrations penv) name = Own cfg"
  shows "ic_baseUrl cfg \<noteq> []"
proof -
  have "env_or penv k (c # cs) \<noteq> []" for k c cs
    by (simp add: env_or_def split: option.splits)
  then have "ic_baseUrl (booking_engine penv) \<noteq> []" "ic_baseUrl (pms_system penv) \<noteq> []"
    "ic_baseUrl (channel_manager penv) \<noteq> []"
    by (simp_all add: booking_engine_def pms_system_def channel_manager_def)
  moreover have "cfg = booking_engine penv \<or> cfg = pms_system penv \<or> cfg = channel_manager penv"
    using assms
    by (auto simp: getIntegration_def property_def defaultIntegrations_def
        split: option.splits if_splits)
  ultimately show ?thesis by auto
qed

text \<open>
  Claim C10. When the endpoint declares a transformer and the request body is falsy
  (undefined, null, false, 0 or the empty text), \<open>forward\<close> does not consult the
  registry: the result is the same for every registry, so neither the transformer nor
  its validator runs. The request is forwarded: one request goes out, to the base URL
  of the integration and the path of the endpoint with its parameters filled in, with
  the endpoint's method and the timeout, the retries and the headers of the
  integration; it carries the body as it came for POST, PUT and PATCH (GET and DELETE
  send no body), and the response relays what the upstream answered. The one exception
  is a configuration in which base URL and path are both the empty text: there the
  client refuses to build the URL, no request goes out and the answer is 500
  \<open>proxy_error\<close>. The default configuration, the one the controller runs on, has no
  empty base URL, whatever the process environment.
\<close>

theorem C10_falsy_body_skips_transformer:
  "isEnabled integrations (pr_integration req)
   \<and> getIntegration integrations (pr_integration req) = Own cfg
   \<and> getEndpoint integrations (pr_integration req) (pr_endpoint req) = Inr (Own ep)
   \<and> truthy_text (ep_transformer ep) \<and> \<not> truthy (pr_body req) \<longrightarrow>
     forward pf integrations transformers net req
       = forward pf integrations transformers' net req
   \<and> (\<exists>authHeaders.
         getAuthHeaders pf integrations (pr_integration req) = Inr authHeaders
       \<and> (ic_baseUrl cfg @ fill_path pf (ep_path ep) (pr_query req) \<noteq> [] \<longrightarrow>
           (let request =
                  \<lparr>or_baseURL = ic_baseUrl cfg,
                   or_timeout = num_or (ic_timeout cfg) 30000,
                   or_retries = num_or (ic_retries cfg) 3,
                   or_headers = [''Content-Type'' \<mapsto> ''application/json'',
                                 ''User-Agent'' \<mapsto> ''API-Middleware/1.0''] ++ authHeaders,
                   or_method = (case ep_method ep of None \<Rightarrow> GET | Some m \<Rightarrow> m),
                   or_url = fill_path pf (ep_path ep) (pr_query req),
                   or_data = (case (case ep_method ep of None \<Rightarrow> GET | Some m \<Rightarrow> m) of
                                GET \<Rightarrow> None | DELETE \<Rightarrow> None | _ \<Rightarrow> Some (pr_body req))\<rparr>
            in forward pf integrations transformers net req
                 = ((case net request of
                       AxiosResponse st body \<Rightarrow> (st, body)
                     | AxiosError message response \<Rightarrow> proxy_error message response),
                    [request]))))
   \<and> (ic_baseUrl cfg @ fill_path pf (ep_path ep) (pr_query req) = [] \<longrightarrow>
        forward pf integrations transformers net req
          = (proxy_error (''Could not build URL for endpoint '' @ quoted (pr_endpoint req)) None,
             []))
   \<and> (integrations = defaultIntegrations penv \<longrightarrow> ic_baseUrl cfg \<noteq> [])"
proof (intro impI, elim conjE)
  assume h: "isEnabled integrations (pr_integration req)"
    "getEndpoint integrations (pr_integration req) (pr_endpoint req) = Inr (Own ep)"
    "\<not> truthy (pr_body req)"
  assume c: "getIntegration integrations (pr_integration req) = Own cfg"
  from getAuthHeaders_Own [OF c] obtain authHeaders where
    a: "getAuthHeaders pf integrations (pr_integration req) = Inr authHeaders" by blast
  note s = forward_skip [OF h]
  note d = dispatch_own [OF c h(2) a, of net "pr_body req"]
  have 1: "forward pf integrations transformers net req
       = forward pf integrations transformers' net req"
    by (simp add: s)
  have 2: "\<exists>authHeaders.
         getAuthHeaders pf integrations (pr_integration req) = Inr authHeaders
       \<and> (ic_baseUrl cfg @ fill_path pf (ep_path ep) (pr_query req) \<noteq> [] \<longrightarrow>
           (let request =
                  \<lparr>or_baseURL = ic_baseUrl cfg,
                   or_timeout = num_or (ic_timeout cfg) 30000,
                   or_retries = num_or (ic_retries cfg) 3,
                   or_headers = [''Content-Type'' \<mapsto> ''application/json'',
                                 ''User-Agent'' \<mapsto> ''API-Middleware/1.0''] ++ authHeaders,
                   or_method = (case ep_method ep of None \<Rightarrow> GET | Some m \<Rightarrow> m),
                   or_url = fill_path pf (ep_path ep) (pr_query req),
                   or_data = (case (case ep_method ep of None \<Rightarrow> GET | Some m \<Rightarrow> m) of
                                GET \<Rightarrow> None | DELETE \<Rightarrow> None | _ \<Rightarrow> Some (pr_body req))\<rparr>
            in forward pf integrations transformers net req
                 = ((case net request of
                       AxiosResponse st body \<Rightarrow> (st, body)
                     | AxiosError message response \<Rightarrow> proxy_error message response),
                    [request])))"
    using a d by (auto simp: s Let_def)
  have 3: "ic_baseUrl cfg @ fill_path pf (ep_path ep) (pr_query req) = [] \<longrightarrow>
        forward pf integrations transformers net req
          = (proxy_error (''Could not build URL for endpoint '' @ quoted (pr_endpoint req)) None,
             [])"
    using d by (simp add: s)
  have 4: "integrations = defaultIntegrations penv \<longrightarrow> ic_baseUrl cfg \<noteq> []"
    using c default_baseUrl by blast
  from 1 2 3 4 show "forward pf integrations transformers net req
       = forward pf integrations transformers' net req
   \<and> (\<exists>authHeaders.
         getAuthHeaders pf integrations (pr_integration req) = Inr authHeaders
       \<and> (ic_baseUrl cfg @ fill_path pf (ep_path ep) (pr_query req) \<noteq> [] \<longrightarrow>
           (let request =
                  \<lparr>or_baseURL = ic_baseUrl cfg,
                   or_timeout = num_or (ic_timeout cfg) 30000,
                   or_retries = num_or (ic_retries cfg) 3,
                   or_headers = [''Content-Type'' \<mapsto> ''application/json'',
                                 ''User-Agent'' \<mapsto> ''API-Middleware/1.0''] ++ authHeaders,
                   or_method = (case ep_method ep of None \<Rightarrow> GET | Some m \<Rightarrow> m),
                   or_url = fill_path pf (ep_path ep) (pr_query req),
                   or_data = (case (case ep_method ep of None \<Rightarrow> GET | Some m \<Rightarrow> m) of
                                GET \<Rightarrow> None | DELETE \<Rightarrow> None | _ \<Rightarrow> Some (pr_body req))\<rparr>
            in forward pf integrations transformers net req
                 = ((case net request of
                       AxiosResponse st body \<Rightarrow> (st, body)
                     | AxiosError message response \<Rightarrow> proxy_error message response),
                    [request]))))
   \<and> (ic_baseUrl cfg @ fill_path pf (ep_path ep) (pr_query req) = [] \<longrightarrow>
        forward pf integrations transformers net req
          = (proxy_error (''Could not build URL for endpoint '' @ quoted (pr_endpoint req)) None,
             []))
   \<and> (integrations = defaultIntegrations penv \<longrightarrow> ic_baseUrl cfg \<noteq> [])"
    by (intro conjI)
qed

lemma syncGuest_endpoint:
  "isEnabled (defaultIntegrations Map.empty) ''pms_system''"
  "getEndpoint (defaultIntegrations Map.empty) ''pms_system'' ''syncGuest''
     = Inr (Own \<lparr>ep_path = ''/api/guests'', ep_method = Some POST,
                  ep_transformer = Some ''PMSGuestTransformer''\<rparr>)"
  "initializeTransformers pf ''PMSGuestTransformer'' = None"
  by (simp_all add: isEnabled_def getEndpoint_def getIntegration_def property_def
      defaultIntegrations_def pms_system_def initializeTransformers_def register_def)

lemma createReservation_endpoint:
  "isEnabled (defaultIntegrations Map.empty) ''booking_engine''"
  "getEndpoint (defaultIntegrations Map.empty) ''booking_engine'' ''createReservation''
     = Inr (Own \<lparr>ep_path = ''/v1/reservations'', ep_method = Some POST,
                  ep_transformer = Some ''BookingReservationTransformer''\<rparr>)"
  "initializeTransformers pf ''BookingReservationTransformer''
     = Some (BookingReservationTransformer pf)"
  by (simp_all add: isEnabled_def getEndpoint_def getIntegration_def property_def
      defaultIntegrations_def booking_engine_def initializeTransformers_def register_def)

text \<open>
  The claim as stated fails for a request without a body: the transformer that the
  endpoint declares is not registered, and still the call is forwarded, a request goes
  out, and the response is the upstream's.
\<close>

theorem C8_transformation_error_counterexample:
  "isEnabled (defaultIntegrations Map.empty) (pr_integration bodyless_request)
   \<and> getEndpoint (defaultIntegrations Map.empty) (pr_integration bodyless_request)
        (pr_endpoint bodyless_request)
       = Inr (Own \<lparr>ep_path = ''/api/guests'', ep_method = Some POST,
                    ep_transformer = Some ''PMSGuestTransformer''\<rparr>)
   \<and> initializeTransformers toy_platform ''PMSGuestTransformer'' = None
   \<and> fst (forward toy_platform (defaultIntegrations Map.empty)
             (initializeTransformers toy_platform) accepting_upstream bodyless_request)
       = (201, JObj [(''id'', JNum 1)])
   \<and> map or_url (snd (forward toy_platform (defaultIntegrations Map.empty)
             (initializeTransformers toy_platform) accepting_upstream bodyless_request))
       = [''/api/guests'']
   \<and> map or_data (snd (forward toy_platform (defaultIntegrations Map.empty)
             (initializeTransformers toy_platform) accepting_upstream bodyless_request))
       = [Some JUndefined]"
proof -
  have e: "isEnabled (defaultIntegrations Map.empty) (pr_integration bodyless_request)"
    "getEndpoint (defaultIntegrations Map.empty) (pr_integration bodyless_request)
        (pr_endpoint bodyless_request)
       = Inr (Own \<lparr>ep_path = ''/api/guests'', ep_method = Some POST,
                    ep_transformer = Some ''PMSGuestTransformer''\<rparr>)"
    using syncGuest_endpoint by (simp_all add: bodyless_request_def)
  have f: "forward toy_platform (defaultIntegrations Map.empty)
             (initializeTransformers toy_platform) accepting_upstream bodyless_request
      = dispatch toy_platform (defaultIntegrations Map.empty) accepting_upstream
          bodyless_request JUndefined"
    using forward_skip [OF e] by (simp add: bodyless_request_def)
  have c: "getIntegration (defaultIntegrations Map.empty) (pr_integration bodyless_request)
      = Own (pms_system Map.empty)"
    by (simp add: getIntegration_def property_def defaultIntegrations_def bodyless_request_def)
  from getAuthHeaders_Own [OF c] obtain h where
    a: "getAuthHeaders toy_platform (defaultIntegrations Map.empty)
          (pr_integration bodyless_request) = Inr h" by blast
  have d: "fst (dispatch toy_platform (defaultIntegrations Map.empty) accepting_upstream
          bodyless_request JUndefined) = (201, JObj [(''id'', JNum 1)])"
    "map or_url (snd (dispatch toy_platform (defaultIntegrations Map.empty) accepting_upstream
          bodyless_request JUndefined)) = [''/api/guests'']"
    "map or_data (snd (dispatch toy_platform (defaultIntegrations Map.empty) accepting_upstream
          bodyless_request JUndefined)) = [Some JUndefined]"
    unfolding dispatch_own [OF c e(2) a]
    by (simp_all add: pms_system_def env_or_def fill_path_def bodyless_request_def
        accepting_upstream_def Let_def)
  from e syncGuest_endpoint(3) d show ?thesis by (simp add: f)
qed

lemma backwards_rejected:
  "t_validate (BookingReservationTransformer toy_platform) backwards_reservation
     = Inl ''Check-out date must be after check-in date''"
  by (simp add: BookingReservationTransformer_def booking_validate_def parseDate_def
      required_def BaseTransformer_validate_def backwards_reservation_def toy_platform_def
      get_field_def text_of_def)

theorem C8_transformation_error_amended_witness:
  "isEnabled (defaultIntegrations Map.empty) (pr_integration backwards_request)
   \<and> getEndpoint (defaultIntegrations Map.empty) (pr_integration backwards_request)
        (pr_endpoint backwards_request)
       = Inr (Own \<lparr>ep_path = ''/v1/reservations'', ep_method = Some POST,
                    ep_transformer = Some ''BookingReservationTransformer''\<rparr>)
   \<and> truthy (pr_body backwards_request)
   \<and> initializeTransformers toy_platform ''BookingReservationTransformer''
       = Some (BookingReservationTransformer toy_platform)
   \<and> t_validate (BookingReservationTransformer toy_platform) (pr_body backwards_request)
       = Inl ''Check-out date must be after check-in date''
   \<and> forward toy_platform (defaultIntegrations Map.empty) (initializeTransformers toy_platform)
        accepting_upstream backwards_request
       = ((400, JObj [(''error'', JStr ''transformation_error''),
                      (''message'', JStr ''Failed to transform request data''),
                      (''details'', JStr ''Check-out date must be after check-in date'')]), [])
   \<and> truthy (pr_body empty_object_request)
   \<and> initializeTransformers toy_platform ''PMSGuestTransformer'' = None
   \<and> forward toy_platform (defaultIntegrations Map.empty) (initializeTransformers toy_platform)
        accepting_upstream empty_object_request
       = ((400, JObj [(''error'', JStr ''transformation_error''),
                      (''message'', JStr ''Failed to transform request data''),
                      (''details'', JStr (''Transformer '' @ quoted ''PMSGuestTransformer''
                                           @ '' not found''))]), [])"
proof -
  let ?D = "defaultIntegrations Map.empty"
  let ?R = "initializeTransformers toy_platform"
  have e1: "isEnabled ?D (pr_integration backwards_request)"
    "getEndpoint ?D (pr_integration backwards_request) (pr_endpoint backwards_request)
       = Inr (Own \<lparr>ep_path = ''/v1/reservations'', ep_method = Some POST,
                    ep_transformer = Some ''BookingReservationTransformer''\<rparr>)"
    using createReservation_endpoint by (simp_all add: backwards_request_def)
  have b1: "truthy (pr_body backwards_request)"
    by (simp add: backwards_request_def backwards_reservation_def)
  have v1: "t_validate (BookingReservationTransformer toy_platform) (pr_body backwards_request)
       = Inl ''Check-out date must be after check-in date''"
    using backwards_rejected by (simp add: backwards_request_def)
  have n1: "''BookingReservationTransformer'' \<noteq> []" by simp
  have t1: "ep_transformer \<lparr>ep_path = ''/v1/reservations'', ep_method = Some POST,
               ep_transformer = Some ''BookingReservationTransformer''\<rparr>
            = Some ''BookingReservationTransformer''" by simp
  have r1: "forward toy_platform ?D ?R accepting_upstream backwards_request
       = (transformation_error ''Check-out date must be after check-in date'', [])"
    using C8_transformation_error_amended [where integrations = ?D and req = backwards_request
        and ep = "\<lparr>ep_path = ''/v1/reservations'', ep_method = Some POST,
               ep_transformer = Some ''BookingReservationTransformer''\<rparr>"
        and t = "''BookingReservationTransformer''" and transformers = ?R
        and tr = "BookingReservationTransformer toy_platform"
        and m = "''Check-out date must be after check-in date''"
        and pf = toy_platform and net = accepting_upstream]
      e1 b1 v1 n1 t1 createReservation_endpoint(3) [of toy_platform]
    by blast
  have e2: "isEnabled ?D (pr_integration empty_object_request)"
    "getEndpoint ?D (pr_integration empty_object_request) (pr_endpoint empty_object_request)
       = Inr (Own \<lparr>ep_path = ''/api/guests'', ep_method = Some POST,
                    ep_transformer = Some ''PMSGuestTransformer''\<rparr>)"
    using syncGuest_endpoint by (simp_all add: empty_object_request_def)
  have b2: "truthy (pr_body empty_object_request)"
    by (simp add: empty_object_request_def)
  have n2: "''PMSGuestTransformer'' \<noteq> []" by simp
  have t2: "ep_transformer \<lparr>ep_path = ''/api/guests'', ep_method = Some POST,
               ep_transformer = Some ''PMSGuestTransformer''\<rparr>
            = Some ''PMSGuestTransformer''" by simp
  have r2: "forward toy_platform ?D ?R accepting_upstream empty_object_request
       = (transformation_error (''Transformer '' @ quoted ''PMSGuestTransformer''
                                  @ '' not found''), [])"
    using C8_transformation_error_amended [where integrations = ?D and req = empty_object_request
        and ep = "\<lparr>ep_path = ''/api/guests'', ep_method = Some POST,
               ep_transformer = Some ''PMSGuestTransformer''\<rparr>"
        and t = "''PMSGuestTransformer''" and transformers = ?R
        and pf = toy_platform and net = accepting_upstream]
      e2 b2 n2 t2 syncGuest_endpoint(3) [of toy_platform]
    by blast
  from e1 b1 createReservation_endpoint(3) [of toy_platform] v1 r1 b2
    syncGuest_endpoint(3) [of toy_platform] r2
  show ?thesis by (simp add: transformation_error_def)
qed

lemma update_endpoint:
  "isEnabled (defaultIntegrations keyed_penv) (pr_integration update_request)"
  "getIntegration (defaultIntegrations keyed_penv) (pr_integration update_request)
     = Own (booking_engine keyed_penv)"
  "getEndpoint (defaultIntegrations keyed_penv) (pr_integration update_request)
      (pr_endpoint update_request)
     = Inr (Own \<lparr>ep_path = ''/v1/reservations/{id}'', ep_method = Some PUT,
                  ep_transformer = Some ''BookingReservationTransformer''\<rparr>)"
  by (simp_all add: isEnabled_def getEndpoint_def getIntegration_def property_def
      defaultIntegrations_def booking_engine_def update_request_def)

lemma update_auth_headers:
  "getAuthHeaders pf (defaultIntegrations keyed_penv) (pr_integration update_request)
     = Inr [''X-API-Key'' \<mapsto> ''k1'']"
  by (simp add: getIntegration_def property_def getAuthHeaders_def defaultIntegrations_def
      booking_engine_def update_request_def keyed_penv_def env_or_def no_credentials_def
      truthy_text_def)

lemma blank_endpoint_found:
  "isEnabled blank_integrations (pr_integration blank_request)"
  "getIntegration blank_integrations (pr_integration blank_request) = Own blank_config"
  "getEndpoint blank_integrations (pr_integration blank_request) (pr_endpoint blank_request)
     = Inr (Own blank_endpoint)"
  by (simp_all add: isEnabled_def getEndpoint_def getIntegration_def property_def
      blank_integrations_def blank_config_def blank_request_def)

theorem C10_falsy_body_skips_transformer_witness:
  "isEnabled (defaultIntegrations keyed_penv) (pr_integration update_request)
   \<and> getIntegration (defaultIntegrations keyed_penv) (pr_integration update_request)
       = Own (booking_engine keyed_penv)
   \<and> getEndpoint (defaultIntegrations keyed_penv) (pr_integration update_request)
        (pr_endpoint update_request)
       = Inr (Own \<lparr>ep_path = ''/v1/reservations/{id}'', ep_method = Some PUT,
                    ep_transformer = Some ''BookingReservationTransformer''\<rparr>)
   \<and> \<not> truthy (pr_body update_request)
   \<and> t_validate (BookingReservationTransformer toy_platform) (pr_body update_request) = Inr False
   \<and> forward toy_platform (defaultIntegrations keyed_penv) (initializeTransformers toy_platform)
        accepting_upstream update_request
       = forward toy_platform (defaultIntegrations keyed_penv) Map.empty
           accepting_upstream update_request
   \<and> fst (forward toy_platform (defaultIntegrations keyed_penv)
             (initializeTransformers toy_platform) accepting_upstream update_request)
       = (201, JObj [(''id'', JNum 1)])
   \<and> map (\<lambda>r. (or_baseURL r, or_url r, or_method r, or_data r, or_timeout r, or_retries r))
        (snd (forward toy_platform (defaultIntegrations keyed_penv)
                (initializeTransformers toy_platform) accepting_upstream update_request))
       = [(''https://api.booking-engine.example.com'', ''/v1/reservations/42'', PUT,
           Some JNull, 30000, 3)]
   \<and> map (\<lambda>r. (or_headers r ''X-API-Key'', or_headers r ''Content-Type'',
                or_headers r ''User-Agent''))
        (snd (forward toy_platform (defaultIntegrations keyed_penv)
                (initializeTransformers toy_platform) accepting_upstream update_request))
       = [(Some ''k1'', Some ''application/json'', Some ''API-Middleware/1.0'')]
   \<and> isEnabled blank_integrations (pr_integration blank_request)
   \<and> getEndpoint blank_integrations (pr_integration blank_request) (pr_endpoint blank_request)
       = Inr (Own blank_endpoint)
   \<and> ic_baseUrl blank_config @ fill_path toy_platform (ep_path blank_endpoint)
        (pr_query blank_request) = []
   \<and> forward toy_platform blank_integrations (initializeTransformers toy_platform)
        accepting_upstream blank_request
       = ((500, JObj [(''error'', JStr ''proxy_error''),
                      (''message'', JStr (''Could not build URL for endpoint '' @ quoted ''e'')),
                      (''details'', JNull)]), [])"
proof -
  let ?D = "defaultIntegrations keyed_penv"
  let ?R = "initializeTransformers toy_platform"
  let ?ep = "\<lparr>ep_path = ''/v1/reservations/{id}'', ep_method = Some PUT,
               ep_transformer = Some ''BookingReservationTransformer''\<rparr>"
  note e = update_endpoint
  have b: "\<not> truthy (pr_body update_request)" "pr_body update_request = JNull"
    by (simp_all add: update_request_def)
  have t: "truthy_text (ep_transformer ?ep)" by (simp add: truthy_text_def)
  have v: "t_validate (BookingReservationTransformer toy_platform) (pr_body update_request) = Inr False"
    by (simp add: BookingReservationTransformer_def booking_validate_def
        BaseTransformer_validate_def update_request_def)
  have u: "ic_baseUrl (booking_engine keyed_penv) @ fill_path toy_platform (ep_path ?ep)
             (pr_query update_request) \<noteq> []"
    by (simp add: booking_engine_def env_or_def keyed_penv_def)
  note T = C10_falsy_body_skips_transformer [where integrations = ?D and req = update_request
      and cfg = "booking_engine keyed_penv" and ep = ?ep and pf = toy_platform
      and transformers = ?R and transformers' = Map.empty and net = accepting_upstream]
  have a1: "forward toy_platform ?D ?R accepting_upstream update_request
       = forward toy_platform ?D Map.empty accepting_upstream update_request"
    using T e(1,2,3) b(1) t by blast
  have a2: "forward toy_platform ?D ?R accepting_upstream update_request
       = ((201, JObj [(''id'', JNum 1)]),
          [\<lparr>or_baseURL = ''https://api.booking-engine.example.com'',
            or_timeout = 30000, or_retries = 3,
            or_headers = [''Content-Type'' \<mapsto> ''application/json'',
                          ''User-Agent'' \<mapsto> ''API-Middleware/1.0'']
                         ++ [''X-API-Key'' \<mapsto> ''k1''],
            or_method = PUT, or_url = ''/v1/reservations/42'', or_data = Some JNull\<rparr>])"
  proof -
    from T e(1,2,3) b(1) t u obtain authHeaders where
      h: "getAuthHeaders toy_platform ?D (pr_integration update_request) = Inr authHeaders"
      and r: "let request =
                  \<lparr>or_baseURL = ic_baseUrl (booking_engine keyed_penv),
                   or_timeout = num_or (ic_timeout (booking_engine keyed_penv)) 30000,
                   or_retries = num_or (ic_retries (booking_engine keyed_penv)) 3,
                   or_headers = [''Content-Type'' \<mapsto> ''application/json'',
                                 ''User-Agent'' \<mapsto> ''API-Middleware/1.0''] ++ authHeaders,
                   or_method = (case ep_method ?ep of None \<Rightarrow> GET | Some m \<Rightarrow> m),
                   or_url = fill_path toy_platform (ep_path ?ep) (pr_query update_request),
                   or_data = (case (case ep_method ?ep of None \<Rightarrow> GET | Some m \<Rightarrow> m) of
                                GET \<Rightarrow> None | DELETE \<Rightarrow> None | _ \<Rightarrow> Some (pr_body update_request))\<rparr>
            in forward toy_platform ?D ?R accepting_upstream update_request
                 = ((case accepting_upstream request of
                       AxiosResponse st body \<Rightarrow> (st, body)
                     | AxiosError message response \<Rightarrow> proxy_error message response),
                    [request])"
      by blast
    from h update_auth_headers [of toy_platform] have "authHeaders = [''X-API-Key'' \<mapsto> ''k1'']" by simp
    with r show ?thesis
      by (simp add: Let_def booking_engine_def env_or_def keyed_penv_def num_or_def
          fill_path_def update_request_def toy_platform_def text_of_def accepting_upstream_def)
  qed
  have a3: "fst (forward toy_platform ?D ?R accepting_upstream update_request)
       = (201, JObj [(''id'', JNum 1)])"
    by (simp add: a2)
  have a4: "map (\<lambda>r. (or_baseURL r, or_url r, or_method r, or_data r, or_timeout r, or_retries r))
        (snd (forward toy_platform ?D ?R accepting_upstream update_request))
       = [(''https://api.booking-engine.example.com'', ''/v1/reservations/42'', PUT,
           Some JNull, 30000, 3)]"
    by (simp add: a2)
  have a5: "map (\<lambda>r. (or_headers r ''X-API-Key'', or_headers r ''Content-Type'',
                or_headers r ''User-Agent''))
        (snd (forward toy_platform ?D ?R accepting_upstream update_request))
       = [(Some ''k1'', Some ''application/json'', Some ''API-Middleware/1.0'')]"
    by (simp add: a2)
  note f = blank_endpoint_found
  have b2: "\<not> truthy (pr_body blank_request)" by (simp add: blank_request_def)
  have t2: "truthy_text (ep_transformer blank_endpoint)"
    by (simp add: truthy_text_def blank_endpoint_def)
  have u2: "ic_baseUrl blank_config @ fill_path toy_platform (ep_path blank_endpoint)
        (pr_query blank_request) = []"
    by (simp add: blank_config_def blank_endpoint_def blank_request_def fill_path_def)
  have a6: "forward toy_platform blank_integrations ?R accepting_upstream blank_request
       = ((500, JObj [(''error'', JStr ''proxy_error''),
                      (''message'', JStr (''Could not build URL for endpoint '' @ quoted ''e'')),
                      (''details'', JNull)]), [])"
  proof -
    have "forward toy_platform blank_integrations ?R accepting_upstream blank_request
        = (proxy_error (''Could not build URL for endpoint '' @ quoted (pr_endpoint blank_request))
             None, [])"
      using C10_falsy_body_skips_transformer [where integrations = blank_integrations
          and req = blank_request and cfg = blank_config and ep = blank_endpoint
          and pf = toy_platform and transformers = ?R and net = accepting_upstream]
        f b2 t2 u2
      by blast
    then show ?thesis by (simp add: proxy_error_def blank_request_def)
  qed
  from e(1,2,3) b(1) v a1 a3 a4 a5 f(1,3) u2 a6 show ?thesis by (intro conjI)
qed

end
